theory Spec2Isabelle
  imports Main "HOL-Library.AList"
begin

section \<open>JavaScript values and strings\<close>

text \<open>
  A JavaScript string is modelled as a \<^typ>\<open>string\<close>, one \<^typ>\<open>char\<close> per code unit
  (code units below 256). The values that arrive in a JSON request body, or that
  \<^verbatim>\<open>JSON.parse\<close> returns, are modelled by \<open>jsval\<close>. An object is the list of its own
  properties. A number is given by the text that \<^verbatim>\<open>String\<close> and \<^verbatim>\<open>toString\<close> make
  of it, \<^verbatim>\<open>1\<close> for the number 1 and \<^verbatim>\<open>1e+21\<close> for ten to the power 21; the modelled
  code reads nothing else of a number but whether it is truthy, which its text tells.
\<close>

datatype jsval =
  JUndefined | JNull | JBool bool | JNum string | JStr string
  | JObj "(string \<times> jsval) list" | JArr "jsval list"

text \<open>
  Truthiness, as tested by \<^verbatim>\<open>!x\<close>, \<^verbatim>\<open>x || y\<close> and \<^verbatim>\<open>!!x\<close>. The falsy numbers
  are zero, whose text is \<^verbatim>\<open>0\<close> whatever its sign, and \<^verbatim>\<open>NaN\<close>.
\<close>

fun truthy :: "jsval \<Rightarrow> bool" where
  "truthy JUndefined = False"
| "truthy JNull = False"
| "truthy (JBool b) = b"
| "truthy (JNum text) = (text \<notin> set [''0'', ''NaN''])"
| "truthy (JStr s) = (s \<noteq> [])"
| "truthy (JObj kvs) = True"
| "truthy (JArr xs) = True"

text \<open>
  The decimal digits of a row identifier, as \<^verbatim>\<open>String(id)\<close> and a template literal
  write them.
\<close>

definition digitChar :: "nat \<Rightarrow> char" where
  "digitChar n = ''0123456789'' ! n"

fun showNat :: "nat \<Rightarrow> string" where
  "showNat n = (if n < 10 then [digitChar n]
                else showNat (n div 10) @ [digitChar (n mod 10)])"

declare showNat.simps [simp del]

text \<open>\<^verbatim>\<open>xs.join(sep)\<close>.\<close>

fun joinWith :: "string \<Rightarrow> string list \<Rightarrow> string" where
  "joinWith sep [] = []"
| "joinWith sep [x] = x"
| "joinWith sep (x # y # ys) = x @ sep @ joinWith sep (y # ys)"

text \<open>
  \<^verbatim>\<open>String(x)\<close>, \<open>None\<close> when it throws a \<^verbatim>\<open>TypeError\<close>. The conversion of an object
  calls its \<^verbatim>\<open>toString\<close>, then its \<^verbatim>\<open>valueOf\<close>, and throws when neither is callable
  or returns a primitive. A property that came from JSON is never callable, and the
  inherited \<^verbatim>\<open>valueOf\<close> returns the object itself: so the conversion throws when the
  object has a property \<^verbatim>\<open>toString\<close> of its own, and otherwise the inherited
  \<^verbatim>\<open>toString\<close> answers. The conversion of an array joins the conversions of its
  elements with commas, \<^verbatim>\<open>undefined\<close> and \<^verbatim>\<open>null\<close> giving the empty string, and
  throws when one of them does.
\<close>

fun jsString :: "jsval \<Rightarrow> string option" where
  "jsString JUndefined = Some ''undefined''"
| "jsString JNull = Some ''null''"
| "jsString (JBool b) = Some (if b then ''true'' else ''false'')"
| "jsString (JNum text) = Some text"
| "jsString (JStr s) = Some s"
| "jsString (JObj kvs) =
     (if ''toString'' \<in> set (map fst kvs) then None else Some ''[object Object]'')"
| "jsString (JArr xs) =
     map_option (joinWith '','')
       (those (map (\<lambda>(x, s). if x = JUndefined \<or> x = JNull then Some [] else s)
                   (zip xs (map jsString xs))))"

text \<open>\<^verbatim>\<open>a || b\<close> on an optional string: an absent or empty \<open>a\<close> gives \<open>b\<close>.\<close>

definition orElse :: "string option \<Rightarrow> string \<Rightarrow> string" where
  "orElse a b = (case a of None \<Rightarrow> b | Some s \<Rightarrow> if s = [] then b else s)"

definition isDigit :: "char \<Rightarrow> bool" where
  "isDigit c = (c \<in> set ''0123456789'')"

text \<open>
  White space and line terminators removed by \<^verbatim>\<open>String.prototype.trim\<close>, among the
  code units below 256: TAB, LF, VT, FF, CR, SPACE and NO-BREAK SPACE.
\<close>

definition isJsWhiteSpace :: "char \<Rightarrow> bool" where
  "isJsWhiteSpace c =
     (c = CHR 0x09 \<or> c = CHR 0x0A \<or> c = CHR 0x0B \<or> c = CHR 0x0C \<or> c = CHR 0x0D
      \<or> c = CHR 0x20 \<or> c = CHR 0xA0)"

definition trim :: "string \<Rightarrow> string" where
  "trim s = rev (dropWhile isJsWhiteSpace (rev (dropWhile isJsWhiteSpace s)))"

definition startsWith :: "string \<Rightarrow> string \<Rightarrow> bool" where
  "startsWith s p = (take (length p) s = p)"

text \<open>
  \<^verbatim>\<open>toUpperCase\<close> on the ASCII letters; the other code units are kept. JavaScript
  also changes the code units from 0xB5 on that are letters with an upper-case form, and
  writes \<^verbatim>\<open>SS\<close> for 0xDF. None of them yields a letter of \<^verbatim>\<open>CHECK_IN\<close> or
  \<^verbatim>\<open>CHECK_OUT\<close>, so a string upper-cases to one of the two here exactly when it does
  in JavaScript; the upper-case form of a text with such letters is not modelled.
\<close>

definition upperChar :: "char \<Rightarrow> char" where
  "upperChar c =
     (case map_of (zip ''abcdefghijklmnopqrstuvwxyz'' ''ABCDEFGHIJKLMNOPQRSTUVWXYZ'') c of
        Some u \<Rightarrow> u
      | None \<Rightarrow> c)"

definition toUpperCase :: "string \<Rightarrow> string" where
  "toUpperCase s = map upperChar s"

section \<open>The Australian phone normaliser\<close>

text \<open>\<^verbatim>\<open>s.replace(/[^\d+]/g, '')\<close>: keep the decimal digits and the plus signs.\<close>

definition stripNonDigitPlus :: "string \<Rightarrow> string" where
  "stripNonDigitPlus s = filter (\<lambda>c. isDigit c \<or> c = CHR ''+'') s"

text \<open>\<^verbatim>\<open>/^4\d{8}$/.test(s)\<close>: a 4 followed by exactly eight digits.\<close>

definition isBareMobile :: "string \<Rightarrow> bool" where
  "isBareMobile s = (case s of [] \<Rightarrow> False
                      | c # cs \<Rightarrow> c = CHR ''4'' \<and> length cs = 8 \<and> list_all isDigit cs)"

text \<open>
  \<^verbatim>\<open>toE164AU\<close> of \<^verbatim>\<open>guardianController.js\<close>. The input of both copies is a string:
  \<^verbatim>\<open>String(input || '')\<close> is then the input itself.
\<close>

definition toE164AU_guardian :: "string \<Rightarrow> string" where
  "toE164AU_guardian input =
     (let s = trim input;
          s = stripNonDigitPlus s
      in if s = [] then []
         else
           let s = (if startsWith s ''+'' then drop 1 s else s) in
           if startsWith s ''61'' then ''+61'' @ drop 2 s
           else if startsWith s ''0'' then ''+61'' @ drop 1 s
           else if isBareMobile s then ''+61'' @ s
           else [])"

text \<open>\<^verbatim>\<open>toE164AU\<close> of \<^verbatim>\<open>importController.js\<close>, which does not trim.\<close>

definition toE164AU_import :: "string \<Rightarrow> string" where
  "toE164AU_import input =
     (let s = stripNonDigitPlus input
      in if s = [] then []
         else
           let s = (if startsWith s ''+'' then drop 1 s else s) in
           if startsWith s ''61'' then ''+61'' @ drop 2 s
           else if startsWith s ''0'' then ''+61'' @ drop 1 s
           else if isBareMobile s then ''+61'' @ s
           else [])"

section \<open>Today's statistics\<close>

text \<open>
  A row of the query of \<^verbatim>\<open>getTodayStats\<close>: a non-duplicate scan event of today with
  the flag telling whether a message log exists for it. A \<^verbatim>\<open>NULL\<close> type is the empty
  string, as \<^verbatim>\<open>String(r.type || "")\<close> makes it.
\<close>

record stat_row =
  sr_student_id :: nat
  sr_type :: string
  sr_scanned_at :: int
  sr_has_message :: bool

text \<open>
  The loop's variables. \<^verbatim>\<open>latestByStudent\<close> is a JavaScript \<^verbatim>\<open>Map\<close>: an association
  list in insertion order, where setting a present key replaces its value in place.
\<close>

record stats_acc =
  acc_todayIn :: nat
  acc_todayOut :: nat
  acc_nonSmsIn :: nat
  acc_nonSmsOut :: nat
  acc_latestByStudent :: "(nat \<times> (int \<times> string)) list"

definition stats_init :: stats_acc where
  "stats_init = \<lparr>acc_todayIn = 0, acc_todayOut = 0, acc_nonSmsIn = 0, acc_nonSmsOut = 0,
                  acc_latestByStudent = []\<rparr>"

definition stats_step :: "stats_acc \<Rightarrow> stat_row \<Rightarrow> stats_acc" where
  "stats_step a r =
     (let type = toUpperCase (sr_type r);
          ts = sr_scanned_at r;
          hasMsg = sr_has_message r;
          a1 = (if type = ''CHECK_IN''
                then a\<lparr>acc_todayIn := acc_todayIn a + 1,
                       acc_nonSmsIn := (if \<not> hasMsg then acc_nonSmsIn a + 1 else acc_nonSmsIn a)\<rparr>
                else if type = ''CHECK_OUT''
                then a\<lparr>acc_todayOut := acc_todayOut a + 1,
                       acc_nonSmsOut := (if \<not> hasMsg then acc_nonSmsOut a + 1 else acc_nonSmsOut a)\<rparr>
                else a);
          prev = map_of (acc_latestByStudent a1) (sr_student_id r)
      in if (case prev of None \<Rightarrow> True | Some p \<Rightarrow> ts > fst p)
         then a1\<lparr>acc_latestByStudent :=
                   AList.update (sr_student_id r) (ts, type) (acc_latestByStudent a1)\<rparr>
         else a1)"

record today_stats =
  todayIn :: nat
  todayOut :: nat
  onCampusToday :: nat
  nonSmsIn :: nat
  nonSmsOut :: nat
  nonSmsTotal :: nat

text \<open>The body of \<^verbatim>\<open>getTodayStats\<close> after the query, on the rows the query returned.\<close>

definition todayStatsOfRows :: "stat_row list \<Rightarrow> today_stats" where
  "todayStatsOfRows rows =
     (let a = foldl stats_step stats_init rows;
          onCampus = length (filter (\<lambda>kv. snd (snd kv) = ''CHECK_IN'') (acc_latestByStudent a))
      in \<lparr>todayIn = acc_todayIn a, todayOut = acc_todayOut a, onCampusToday = onCampus,
          nonSmsIn = acc_nonSmsIn a, nonSmsOut = acc_nonSmsOut a,
          nonSmsTotal = acc_nonSmsIn a + acc_nonSmsOut a\<rparr>)"

section \<open>The database\<close>

text \<open>
  A table is the list of its rows. Row identifiers come from a sequence per table, kept
  with the tables.
\<close>

record qr_code_row =
  qr_id :: nat
  qr_student_id :: nat
  qr_token :: string
  qr_active :: bool
  qr_created_by :: "nat option"

record student_row =
  st_id :: nat
  st_first_name :: "string option"
  st_last_name :: "string option"
  st_status :: string

record scan_event_row =
  se_id :: nat
  se_student_id :: nat
  se_qr_code_id :: nat
  se_type :: string
  se_scanned_by :: "nat option"
  se_scanned_at :: int
  se_was_duplicate :: "bool option"
  se_meta :: "(string \<times> bool) list"

record guardian_row =
  g_id :: nat
  g_phone_e164 :: string
  g_active :: bool
  g_phone_valid :: bool

record student_guardian_row =
  sg_student_id :: nat
  sg_guardian_id :: nat
  sg_is_primary :: bool

record message_template_row =
  mt_key :: string
  mt_text :: "string option"

record message_log_row =
  ml_id :: nat
  ml_student_id :: nat
  ml_trigger_type :: string
  ml_scan_event_id :: nat
  ml_template_key :: "string option"
  ml_body_rendered :: string
  ml_created_by :: "nat option"
  ml_created_at :: int

record message_recipient_row =
  mr_message_log_id :: nat
  mr_guardian_id :: nat
  mr_phone_e164 :: string
  mr_status :: string
  mr_gateway_message_id :: "string option"
  mr_gateway_status :: string

text \<open>
  The two \<^verbatim>\<open>app_setting\<close> values that \<^verbatim>\<open>getOrgSettings\<close> reads, each absent
  (\<open>None\<close>) or a JSON object given by the two properties read from it. The name and the
  time zone of the centre are strings, as \<^verbatim>\<open>updateOrgSettings\<close> stores them, or missing
  (\<open>None\<close>, also for \<^verbatim>\<open>null\<close>).
\<close>

record center_profile =
  cp_centreName :: "string option"
  cp_timezone :: "string option"

record sms_policy =
  sp_sendOnCheckIn :: jsval
  sp_sendOnCheckOut :: jsval

record db =
  qr_code :: "qr_code_row list"
  student :: "student_row list"
  scan_event :: "scan_event_row list"
  guardian :: "guardian_row list"
  student_guardian :: "student_guardian_row list"
  message_template :: "message_template_row list"
  message_log :: "message_log_row list"
  message_recipient :: "message_recipient_row list"
  setting_center_profile :: "center_profile option"
  setting_sms_policy :: "sms_policy option"
  qr_code_seq :: nat
  scan_event_seq :: nat
  message_log_seq :: nat

section \<open>The environment of a request\<close>

record sms_item =
  i_to :: string
  i_body :: string

record gw_message =
  m_to :: string
  m_message_id :: "string option"
  m_status :: "string option"

text \<open>
  What a request reads from outside the program. Times are milliseconds since the epoch.
  \<open>localDate tz t\<close> is the calendar date \<^verbatim>\<open>(t AT TIME ZONE tz)::date\<close> as a day number;
  \<open>intlDateTime\<close>, \<open>intlDate\<close> and \<open>intlTime\<close> are the three \<^verbatim>\<open>Intl.DateTimeFormat\<close>
  formatters the code builds, as functions of the time zone and the time. The organisation's
  time zone is taken to be one that PostgreSQL and \<^verbatim>\<open>Intl\<close> recognise, so that these are
  total. \<open>clickSend\<close> is the HTTP call to the SMS gateway with the messages it returns,
  \<open>None\<close> when the call fails. \<open>userId\<close> is \<^verbatim>\<open>req.user?.id\<close>, the \<open>env_\<close> fields are
  the variables of \<^verbatim>\<open>process.env\<close>, \<open>inheritedText k\<close> is the string that the engine
  makes of the member \<open>k\<close> of \<^verbatim>\<open>Object.prototype\<close>, \<open>randomUUID k\<close> is the \<open>k\<close>-th
  value of \<^verbatim>\<open>crypto.randomUUID()\<close>, \<open>jsonStringify\<close> is \<^verbatim>\<open>JSON.stringify\<close> on
  an object, given by its properties, and \<open>arrayString\<close> is the PostgreSQL array literal
  that the database driver makes of an array, given by its elements. Every query is
  taken to succeed: the connection is up, the tables exist and PostgreSQL accepts the
  texts sent to it.
\<close>

record env =
  jsNow :: int
  dbNow :: int
  localDate :: "string \<Rightarrow> int \<Rightarrow> int"
  intlDateTime :: "string \<Rightarrow> int \<Rightarrow> string"
  intlDate :: "string \<Rightarrow> int \<Rightarrow> string"
  intlTime :: "string \<Rightarrow> int \<Rightarrow> string"
  clickSend :: "sms_item list \<Rightarrow> gw_message list option"
  userId :: "nat option"
  env_APP_TZ :: "string option"
  env_CENTER_NAME :: "string option"
  env_QR_REPO_DIR :: "string option"
  inheritedText :: "string \<Rightarrow> string"
  randomUUID :: "nat \<Rightarrow> string"
  jsonStringify :: "(string \<times> jsval) list \<Rightarrow> string"
  arrayString :: "jsval list \<Rightarrow> string"

text \<open>\<^verbatim>\<open>req.user?.id || null\<close>.\<close>

definition userIdOrNull :: "env \<Rightarrow> nat option" where
  "userIdOrNull e = (case userId e of None \<Rightarrow> None | Some u \<Rightarrow> if u = 0 then None else Some u)"

section \<open>Rendering an SMS template\<close>

record render_student =
  rs_first_name :: "string option"
  rs_firstName :: "string option"
  rs_last_name :: "string option"
  rs_lastName :: "string option"
  rs_id :: "nat option"

text \<open>
  The second argument of \<^verbatim>\<open>renderSmsTemplate\<close>; \<open>None\<close> is a property that is absent
  or \<^verbatim>\<open>undefined\<close> (or, for the student's columns, \<^verbatim>\<open>null\<close>).
\<close>

record render_ctx =
  c_student :: render_student
  c_type :: "string option"
  c_now :: int
  c_centerName :: "string option"
  c_centreName :: "string option"
  c_tz :: "string option"
  c_timezone :: "string option"

text \<open>
  \<^verbatim>\<open>text.replace(/\{([^}]+)\}/g, f)\<close>: scanning from the left, a match starts at an
  opening brace that is followed by one or more characters other than a closing brace and
  then by a closing brace; the match is replaced by \<open>f match key\<close> and the scan goes on
  after it. Any other character is copied.
\<close>

function replaceTokens :: "(string \<Rightarrow> string \<Rightarrow> string) \<Rightarrow> string \<Rightarrow> string" where
  "replaceTokens f [] = []"
| "replaceTokens f (c # cs) =
     (if c = CHR ''{'' \<and> takeWhile (\<lambda>x. x \<noteq> CHR ''}'') cs \<noteq> []
         \<and> dropWhile (\<lambda>x. x \<noteq> CHR ''}'') cs \<noteq> []
      then f (c # takeWhile (\<lambda>x. x \<noteq> CHR ''}'') cs @ ''}'') (takeWhile (\<lambda>x. x \<noteq> CHR ''}'') cs)
           @ replaceTokens f (tl (dropWhile (\<lambda>x. x \<noteq> CHR ''}'') cs))
      else c # replaceTokens f cs)"
  by pat_completeness auto
termination
proof (relation "measure (\<lambda>(f, s). length s)")
  fix f :: "string \<Rightarrow> string \<Rightarrow> string" and c :: char and cs :: string
  have "length (tl (dropWhile (\<lambda>x. x \<noteq> CHR ''}'') cs)) \<le> length cs"
    using length_dropWhile_le [of "\<lambda>x. x \<noteq> CHR ''}''" cs] by simp
  then show "((f, tl (dropWhile (\<lambda>x. x \<noteq> CHR ''}'') cs)), (f, c # cs))
               \<in> measure (\<lambda>(f, s). length s)"
    by simp
qed simp_all

declare replaceTokens.simps [simp del]

text \<open>
  The names that every object inherits from \<^verbatim>\<open>Object.prototype\<close>. The token map is a
  plain object, so \<^verbatim>\<open>map[key]\<close> finds the inherited member under such a name.
\<close>

definition objectPrototypeKeys :: "string list" where
  "objectPrototypeKeys =
     [''constructor'', ''__defineGetter__'', ''__defineSetter__'', ''hasOwnProperty'',
      ''__lookupGetter__'', ''__lookupSetter__'', ''isPrototypeOf'', ''propertyIsEnumerable'',
      ''toString'', ''valueOf'', ''__proto__'', ''toLocaleString'']"

definition student_first :: "render_student \<Rightarrow> string" where
  "student_first st = (case rs_first_name st of Some x \<Rightarrow> x
                        | None \<Rightarrow> (case rs_firstName st of Some x \<Rightarrow> x | None \<Rightarrow> []))"

definition student_last :: "render_student \<Rightarrow> string" where
  "student_last st = (case rs_last_name st of Some x \<Rightarrow> x
                       | None \<Rightarrow> (case rs_lastName st of Some x \<Rightarrow> x | None \<Rightarrow> []))"

definition student_full :: "render_student \<Rightarrow> string" where
  "student_full st =
     orElse (Some (trim (joinWith '' '' (filter (\<lambda>x. x \<noteq> []) [student_first st, student_last st]))))
       ''Student''"

definition ctx_timeZone :: "env \<Rightarrow> render_ctx \<Rightarrow> string" where
  "ctx_timeZone e c =
     orElse (c_tz c) (orElse (c_timezone c) (orElse (env_APP_TZ e) ''Australia/Hobart''))"

definition ctx_centre :: "env \<Rightarrow> render_ctx \<Rightarrow> string" where
  "ctx_centre e c =
     orElse (c_centerName c) (orElse (c_centreName c) (orElse (env_CENTER_NAME e) ''Kumon Centre''))"

text \<open>The object \<^verbatim>\<open>map\<close> of \<^verbatim>\<open>renderSmsTemplate\<close>, its own properties in source order.\<close>

definition tokenMap :: "env \<Rightarrow> render_ctx \<Rightarrow> (string \<times> string) list" where
  "tokenMap e c =
     [(''student.firstName'', orElse (Some (student_first (c_student c))) ''Student''),
      (''student.lastName'', student_last (c_student c)),
      (''student.fullName'', student_full (c_student c)),
      (''student.id'', (case rs_id (c_student c) of None \<Rightarrow> [] | Some n \<Rightarrow> showNat n)),
      (''type'', toUpperCase (case c_type c of None \<Rightarrow> ''CHECK_IN'' | Some t \<Rightarrow> t)),
      (''time'', intlTime e (ctx_timeZone e c) (c_now c)),
      (''date'', intlDate e (ctx_timeZone e c) (c_now c)),
      (''center.name'', ctx_centre e c),
      (''centre.name'', ctx_centre e c),
      (''timezone'', ctx_timeZone e c)]"

text \<open>
  The replacer \<^verbatim>\<open>(m, key) => (map[key] ?? m)\<close>: an own property, else an inherited
  member (converted to a string by \<^verbatim>\<open>replace\<close>), else the match itself.
\<close>

definition replacer :: "env \<Rightarrow> render_ctx \<Rightarrow> string \<Rightarrow> string \<Rightarrow> string" where
  "replacer e c m key =
     (case map_of (tokenMap e c) key of
        Some v \<Rightarrow> v
      | None \<Rightarrow> if key \<in> set objectPrototypeKeys then inheritedText e key else m)"

definition renderSmsTemplate :: "env \<Rightarrow> string \<Rightarrow> render_ctx \<Rightarrow> string" where
  "renderSmsTemplate e text c = trim (replaceTokens (replacer e c) text)"

section \<open>The scan controller\<close>

definition withinMinutes :: "int \<Rightarrow> int \<Rightarrow> int \<Rightarrow> bool" where
  "withinMinutes d1 d2 mins = (\<bar>d1 - d2\<bar> \<le> mins * 60 * 1000)"

record org_settings =
  os_centerName :: string
  os_timezone :: string
  os_sendOnCheckIn :: bool
  os_sendOnCheckOut :: bool

definition getOrgSettings :: "env \<Rightarrow> db \<Rightarrow> org_settings" where
  "getOrgSettings e d =
     (let profile = (case setting_center_profile d of
                       None \<Rightarrow> \<lparr>cp_centreName = Some (orElse (env_CENTER_NAME e) ''Kumon''),
                                cp_timezone = Some ''Australia/Hobart''\<rparr>
                     | Some p \<Rightarrow> p);
          smsPolicy = (case setting_sms_policy d of
                         None \<Rightarrow> \<lparr>sp_sendOnCheckIn = JBool True, sp_sendOnCheckOut = JBool True\<rparr>
                       | Some p \<Rightarrow> p)
      in \<lparr>os_centerName = (case cp_centreName profile of None \<Rightarrow> ''Kumon'' | Some s \<Rightarrow> s),
          os_timezone = (case cp_timezone profile of None \<Rightarrow> ''Australia/Hobart''
                         | Some s \<Rightarrow> s),
          os_sendOnCheckIn = truthy (sp_sendOnCheckIn smsPolicy),
          os_sendOnCheckOut = truthy (sp_sendOnCheckOut smsPolicy)\<rparr>)"

definition formatDateTimeTZ :: "env \<Rightarrow> int \<Rightarrow> string \<Rightarrow> string" where
  "formatDateTimeTZ e t tz = intlDateTime e (if tz = [] then ''Australia/Hobart'' else tz) t"

text \<open>
  \<^verbatim>\<open>ORDER BY scanned_at DESC LIMIT 1\<close>: a row with the greatest \<^verbatim>\<open>scanned_at\<close>, the
  first of them in table order (the callers read \<^verbatim>\<open>scanned_at\<close> only).
\<close>

fun latestScan :: "scan_event_row list \<Rightarrow> scan_event_row option" where
  "latestScan [] = None"
| "latestScan (r # rs) =
     (case latestScan rs of
        None \<Rightarrow> Some r
      | Some r' \<Rightarrow> if se_scanned_at r' > se_scanned_at r then Some r' else Some r)"

definition getTodayOfType :: "env \<Rightarrow> db \<Rightarrow> nat \<Rightarrow> string \<Rightarrow> string \<Rightarrow> scan_event_row option" where
  "getTodayOfType e d studentId type tz =
     latestScan (filter (\<lambda>r. se_student_id r = studentId \<and> se_type r = type
                            \<and> localDate e tz (se_scanned_at r) = localDate e tz (dbNow e))
                        (scan_event d))"

definition getTodayCheckIn :: "env \<Rightarrow> db \<Rightarrow> nat \<Rightarrow> string \<Rightarrow> scan_event_row option" where
  "getTodayCheckIn e d studentId tz = getTodayOfType e d studentId ''CHECK_IN'' tz"

definition getTodayCheckOut :: "env \<Rightarrow> db \<Rightarrow> nat \<Rightarrow> string \<Rightarrow> scan_event_row option" where
  "getTodayCheckOut e d studentId tz = getTodayOfType e d studentId ''CHECK_OUT'' tz"

text \<open>The request body of \<^verbatim>\<open>POST /scan\<close>; an absent property is \<open>JUndefined\<close>.\<close>

record scan_body =
  b_qrCode :: jsval
  b_type :: jsval
  b_messageOverride :: jsval
  b_recheck :: jsval
  b_headcountOnly :: jsval

record qr_resolved =
  r_qr_id :: nat
  r_student_id :: nat
  r_first_name :: "string option"
  r_last_name :: "string option"
  r_status :: string

text \<open>
  The text that the database driver sends for a query parameter (\<^verbatim>\<open>prepareValue\<close> of
  node-postgres): SQL \<^verbatim>\<open>NULL\<close> (\<open>None\<close>) for \<^verbatim>\<open>undefined\<close> and \<^verbatim>\<open>null\<close>, the JSON
  text of an object, the array literal of an array, and \<^verbatim>\<open>toString()\<close> of a string, a
  number or a boolean.
\<close>

definition prepareValue :: "env \<Rightarrow> jsval \<Rightarrow> string option" where
  "prepareValue e v =
     (case v of
        JUndefined \<Rightarrow> None
      | JNull \<Rightarrow> None
      | JBool b \<Rightarrow> Some (if b then ''true'' else ''false'')
      | JNum text \<Rightarrow> Some text
      | JStr s \<Rightarrow> Some s
      | JObj kvs \<Rightarrow> Some (jsonStringify e kvs)
      | JArr xs \<Rightarrow> Some (arrayString e xs))"

text \<open>
  The query that resolves a token: \<^verbatim>\<open>qr_code\<close> joined with \<^verbatim>\<open>student\<close>, the rows with
  this token and \<^verbatim>\<open>active = TRUE\<close>, \<^verbatim>\<open>LIMIT 1\<close>: the first such row in table order.
  No token equals \<^verbatim>\<open>NULL\<close>.
\<close>

definition resolveQr :: "db \<Rightarrow> string option \<Rightarrow> qr_resolved option" where
  "resolveQr d token =
     (case List.find (\<lambda>(q, s). st_id s = qr_student_id q \<and> Some (qr_token q) = token
                               \<and> qr_active q)
             (List.product (qr_code d) (student d)) of
        None \<Rightarrow> None
      | Some (q, s) \<Rightarrow> Some \<lparr>r_qr_id = qr_id q, r_student_id = qr_student_id q,
                             r_first_name = st_first_name s, r_last_name = st_last_name s,
                             r_status = st_status s\<rparr>)"

record recipient_detail =
  rd_phone :: string
  rd_status :: string
  rd_gateway_status :: string
  rd_gateway_message_id :: "string option"

record sent_body =
  sb_scan :: scan_event_row
  sb_messageLogId :: nat
  sb_recipients :: "string list"
  sb_recipientsDetailed :: "recipient_detail list"
  sb_sent :: nat
  sb_smsAllowed :: bool
  sb_headcountOnly :: bool
  sb_overallGatewayStatus :: string
  sb_gatewayFailure :: bool
  sb_gatewayFailureReason :: "string option"
  sb_gatewayFailureMessage :: "string option"

text \<open>
  The responses of \<^verbatim>\<open>handleScan\<close>: 400 and 404 with the error text, 409 with the error
  and the formatted time of the earlier scan, the three 200 bodies (duplicate with the
  scan and \<^verbatim>\<open>headcountOnly\<close>; no SMS with the scan, \<^verbatim>\<open>smsAllowed\<close> and
  \<^verbatim>\<open>headcountOnly\<close>; sent), and the answer of the error handler, status 500, for an
  exception that the handler passes to \<^verbatim>\<open>next(err)\<close>.
\<close>

datatype response =
    BadRequest string
  | ServerError
  | NotFound string
  | Conflict string string
  | DuplicateOk scan_event_row bool
  | NoSmsOk scan_event_row bool bool
  | SentOk sent_body

fun httpStatus :: "response \<Rightarrow> nat" where
  "httpStatus (BadRequest m) = 400"
| "httpStatus ServerError = 500"
| "httpStatus (NotFound m) = 404"
| "httpStatus (Conflict err at) = 409"
| "httpStatus (DuplicateOk sc h) = 200"
| "httpStatus (NoSmsOk sc a h) = 200"
| "httpStatus (SentOk b) = 200"

text \<open>The properties \<^verbatim>\<open>sent\<close> and \<^verbatim>\<open>recipients\<close> of a response body, when it has them.\<close>

fun respSent :: "response \<Rightarrow> nat option" where
  "respSent (DuplicateOk sc h) = Some 0"
| "respSent (NoSmsOk sc a h) = Some 0"
| "respSent (SentOk b) = Some (sb_sent b)"
| "respSent (BadRequest m) = None"
| "respSent ServerError = None"
| "respSent (NotFound m) = None"
| "respSent (Conflict err at) = None"

fun respRecipients :: "response \<Rightarrow> string list option" where
  "respRecipients (DuplicateOk sc h) = Some []"
| "respRecipients (NoSmsOk sc a h) = Some []"
| "respRecipients (SentOk b) = Some (sb_recipients b)"
| "respRecipients (BadRequest m) = None"
| "respRecipients ServerError = None"
| "respRecipients (NotFound m) = None"
| "respRecipients (Conflict err at) = None"

text \<open>
  \<^verbatim>\<open>sendSmsMany\<close>: no HTTP call for an empty list; otherwise one call, whose failure
  is thrown. The second component lists the calls made to the gateway.
\<close>

definition sendSmsMany :: "env \<Rightarrow> sms_item list \<Rightarrow> gw_message list option \<times> sms_item list list" where
  "sendSmsMany e items = (if items = [] then (Some [], []) else (clickSend e items, [items]))"

text \<open>
  Step 2, the same-day guard: the 409 response, or \<open>None\<close> to go on. Here and below
  \<open>scanType\<close> is the source's \<^verbatim>\<open>TYPE\<close>, the upper-cased type of the request.
\<close>

definition sameDayGuard :: "env \<Rightarrow> db \<Rightarrow> nat \<Rightarrow> string \<Rightarrow> string \<Rightarrow> response option" where
  "sameDayGuard e d studentId scanType timezone =
     (if scanType = ''CHECK_IN'' then
        (case getTodayCheckIn e d studentId timezone of
           Some lastToday \<Rightarrow> Some (Conflict ''already_checked_in_today''
                                    (formatDateTimeTZ e (se_scanned_at lastToday) timezone))
         | None \<Rightarrow> None)
      else if scanType = ''CHECK_OUT'' then
        (case getTodayCheckOut e d studentId timezone of
           Some lastToday \<Rightarrow> Some (Conflict ''already_checked_out_today''
                                    (formatDateTimeTZ e (se_scanned_at lastToday) timezone))
         | None \<Rightarrow> None)
      else None)"

text \<open>Step 3, the duplicate check against the student's latest scan of the type.\<close>

definition isDuplicateScan :: "env \<Rightarrow> db \<Rightarrow> nat \<Rightarrow> string \<Rightarrow> bool" where
  "isDuplicateScan e d studentId scanType =
     (case latestScan (filter (\<lambda>r. se_student_id r = studentId \<and> se_type r = scanType) (scan_event d)) of
        None \<Rightarrow> False
      | Some lastScan \<Rightarrow> withinMinutes (jsNow e) (se_scanned_at lastScan) 2)"

text \<open>Step 4, the inserted row and the table after the insert.\<close>

definition newScanEvent :: "env \<Rightarrow> db \<Rightarrow> qr_resolved \<Rightarrow> string \<Rightarrow> bool \<Rightarrow> bool \<Rightarrow> bool \<Rightarrow> scan_event_row" where
  "newScanEvent e d qr scanType isDuplicate wantRecheck suppressByHeadcount =
     \<lparr>se_id = scan_event_seq d + 1, se_student_id = r_student_id qr, se_qr_code_id = r_qr_id qr,
      se_type = scanType, se_scanned_by = userIdOrNull e, se_scanned_at = dbNow e,
      se_was_duplicate = Some isDuplicate,
      se_meta = (if wantRecheck then [(''recheck'', True)] else [])
                @ (if suppressByHeadcount then [(''headcountOnly'', True)] else [])\<rparr>"

definition insertScanEvent :: "scan_event_row \<Rightarrow> db \<Rightarrow> db" where
  "insertScanEvent scan d = d\<lparr>scan_event := scan_event d @ [scan], scan_event_seq := se_id scan\<rparr>"

text \<open>Step 5, the guardians of the student that are active and have a valid phone.\<close>

definition guardiansOf :: "db \<Rightarrow> nat \<Rightarrow> guardian_row list" where
  "guardiansOf d studentId =
     map fst (filter (\<lambda>(g, sg). sg_guardian_id sg = g_id g \<and> sg_student_id sg = studentId
                               \<and> g_active g \<and> g_phone_valid g)
                     (List.product (guardian d) (student_guardian d)))"

text \<open>Step 6, the message body.\<close>

definition hasOverride :: "jsval \<Rightarrow> bool" where
  "hasOverride messageOverride = (case messageOverride of JStr s \<Rightarrow> trim s \<noteq> [] | _ \<Rightarrow> False)"

text \<open>The override itself, which is a string where \<^verbatim>\<open>hasOverride\<close> holds.\<close>

definition overrideText :: "jsval \<Rightarrow> string" where
  "overrideText messageOverride = (case messageOverride of JStr s \<Rightarrow> s | _ \<Rightarrow> [])"

definition composeBody :: "env \<Rightarrow> db \<Rightarrow> qr_resolved \<Rightarrow> string \<Rightarrow> org_settings \<Rightarrow> jsval \<Rightarrow> string" where
  "composeBody e d qr scanType org messageOverride =
     (if hasOverride messageOverride then trim (overrideText messageOverride)
      else
        let tplText = orElse (case List.find (\<lambda>t. mt_key t = scanType) (message_template d) of
                                None \<Rightarrow> None | Some t \<Rightarrow> mt_text t)
                        ''{student.fullName} has an update at {time} on {date}.''
        in renderSmsTemplate e tplText
             \<lparr>c_student = \<lparr>rs_first_name = r_first_name qr, rs_firstName = None,
                            rs_last_name = r_last_name qr, rs_lastName = None,
                            rs_id = Some (r_student_id qr)\<rparr>,
              c_type = Some scanType, c_now = jsNow e, c_centerName = Some (os_centerName org),
              c_centreName = None, c_tz = None, c_timezone = Some (os_timezone org)\<rparr>)"

text \<open>Step 9, what is stored and reported for one guardian, given the gateway's messages.\<close>

definition gatewayIdFor :: "gw_message list \<Rightarrow> guardian_row \<Rightarrow> string option" where
  "gatewayIdFor msgs g =
     (case List.find (\<lambda>m. m_to m = g_phone_e164 g) msgs of
        None \<Rightarrow> None
      | Some m \<Rightarrow> (case m_message_id m of None \<Rightarrow> None
                    | Some i \<Rightarrow> if i = [] then None else Some i))"

definition gatewayStatusFor :: "gw_message list \<Rightarrow> guardian_row \<Rightarrow> string" where
  "gatewayStatusFor msgs g =
     orElse (case List.find (\<lambda>m. m_to m = g_phone_e164 g) msgs of
               None \<Rightarrow> None | Some m \<Rightarrow> m_status m)
       (if msgs \<noteq> [] then ''UNKNOWN'' else ''FAILED'')"

definition statusNorm :: "string \<Rightarrow> string" where
  "statusNorm gatewayStatus = (if gatewayStatus = ''SUCCESS'' then ''SENT'' else ''FAILED'')"

definition recipientRow :: "nat \<Rightarrow> gw_message list \<Rightarrow> guardian_row \<Rightarrow> message_recipient_row" where
  "recipientRow messageLogId msgs g =
     \<lparr>mr_message_log_id = messageLogId, mr_guardian_id = g_id g, mr_phone_e164 = g_phone_e164 g,
      mr_status = statusNorm (gatewayStatusFor msgs g),
      mr_gateway_message_id = gatewayIdFor msgs g,
      mr_gateway_status = gatewayStatusFor msgs g\<rparr>"

definition recipientDetail :: "gw_message list \<Rightarrow> guardian_row \<Rightarrow> recipient_detail" where
  "recipientDetail msgs g =
     \<lparr>rd_phone = g_phone_e164 g, rd_status = statusNorm (gatewayStatusFor msgs g),
      rd_gateway_status = gatewayStatusFor msgs g,
      rd_gateway_message_id = gatewayIdFor msgs g\<rparr>"

text \<open>The loop of step 9: one insert and one detail per guardian, in order.\<close>

fun recipientsLoop :: "nat \<Rightarrow> gw_message list \<Rightarrow> guardian_row list
                        \<Rightarrow> db \<times> recipient_detail list \<Rightarrow> db \<times> recipient_detail list" where
  "recipientsLoop messageLogId msgs [] (d, det) = (d, det)"
| "recipientsLoop messageLogId msgs (g # gs) (d, det) =
     recipientsLoop messageLogId msgs gs
       (d\<lparr>message_recipient := message_recipient d @ [recipientRow messageLogId msgs g]\<rparr>,
        det @ [recipientDetail msgs g])"

text \<open>Steps 6 to 9 and the final response, for a scan that notifies.\<close>

definition notifyGuardians :: "env \<Rightarrow> db \<Rightarrow> qr_resolved \<Rightarrow> string \<Rightarrow> org_settings \<Rightarrow> jsval
                                \<Rightarrow> scan_event_row \<Rightarrow> guardian_row list \<Rightarrow> bool \<Rightarrow> bool
                                \<Rightarrow> response \<times> db \<times> sms_item list list" where
  "notifyGuardians e d qr scanType org messageOverride scan gRows smsAllowed suppressByHeadcount =
     (let body = composeBody e d qr scanType org messageOverride;
          templateKey = (if hasOverride messageOverride then None else Some scanType);
          messageLogId = message_log_seq d + 1;
          d1 = d\<lparr>message_log := message_log d @
                    [\<lparr>ml_id = messageLogId, ml_student_id = r_student_id qr,
                      ml_trigger_type = ''SCAN'', ml_scan_event_id = se_id scan,
                      ml_template_key = templateKey, ml_body_rendered = body,
                      ml_created_by = userIdOrNull e, ml_created_at = dbNow e\<rparr>],
                 message_log_seq := messageLogId\<rparr>;
          (sendResult, calls) =
             (if gRows \<noteq> []
              then sendSmsMany e (map (\<lambda>g. \<lparr>i_to = g_phone_e164 g, i_body = body\<rparr>) gRows)
              else (Some [], []));
          messages = (case sendResult of None \<Rightarrow> [] | Some ms \<Rightarrow> ms);
          (d2, recipientsDetailed) = recipientsLoop messageLogId messages gRows (d1, []);
          anyNonSuccess = list_ex (\<lambda>r. rd_gateway_status r \<noteq> ''SUCCESS'') recipientsDetailed;
          insufficientCredit =
             list_ex (\<lambda>r. rd_gateway_status r = ''INSUFFICIENT_CREDIT'') recipientsDetailed;
          failingStatuses =
             rev (remdups (rev (map rd_gateway_status
               (filter (\<lambda>r. rd_gateway_status r \<noteq> ''SUCCESS'') recipientsDetailed))))
      in (SentOk \<lparr>sb_scan = scan, sb_messageLogId = messageLogId,
                  sb_recipients = map g_phone_e164 gRows,
                  sb_recipientsDetailed = recipientsDetailed,
                  sb_sent = length messages, sb_smsAllowed = smsAllowed,
                  sb_headcountOnly = suppressByHeadcount,
                  sb_overallGatewayStatus = (if anyNonSuccess then ''FAILURE'' else ''SUCCESS''),
                  sb_gatewayFailure = anyNonSuccess,
                  sb_gatewayFailureReason =
                    (if anyNonSuccess
                     then Some (if insufficientCredit then ''INSUFFICIENT_CREDIT''
                                else (case failingStatuses of [] \<Rightarrow> ''UNKNOWN''
                                      | x # xs \<Rightarrow> if x = [] then ''UNKNOWN'' else x))
                     else None),
                  sb_gatewayFailureMessage =
                    (if anyNonSuccess
                     then Some (if insufficientCredit
                                then ''SMS gateway reports insufficient credit. No messages were delivered. Please top up your ClickSend balance and retry.''
                                else ''SMS gateway returned non-success statuses (''
                                     @ joinWith '', '' failingStatuses
                                     @ ''). Check your SMS gateway account and retry.'')
                     else None)\<rparr>,
          d2, calls))"

text \<open>
  \<^verbatim>\<open>handleScan\<close>: the response, the database after the request and the calls made to
  the SMS gateway. Where \<^verbatim>\<open>String(type)\<close> throws, the handler leaves through its
  \<^verbatim>\<open>catch\<close> with nothing done, and the global error handler of the server answers.
\<close>

definition handleScan :: "env \<Rightarrow> scan_body \<Rightarrow> db \<Rightarrow> response \<times> db \<times> sms_item list list" where
  "handleScan e body d =
     (if \<not> truthy (b_qrCode body) \<or> \<not> truthy (b_type body)
      then (BadRequest ''qrCode and type are required'', d, [])
      else
        case jsString (b_type body) of
          None \<Rightarrow> (ServerError, d, [])
        | Some typeText \<Rightarrow>
           (let scanType = toUpperCase typeText in
            if scanType \<notin> set [''CHECK_IN'', ''CHECK_OUT'']
            then (BadRequest ''type must be CHECK_IN or CHECK_OUT'', d, [])
            else
              let wantRecheck = (b_recheck body = JBool True);
                  org = getOrgSettings e d;
                  smsAllowedPolicy = (if scanType = ''CHECK_IN'' then os_sendOnCheckIn org
                                      else os_sendOnCheckOut org);
                  suppressByHeadcount = (b_headcountOnly body = JBool True);
                  smsAllowed = (smsAllowedPolicy \<and> \<not> suppressByHeadcount)
              in
              case resolveQr d (prepareValue e (b_qrCode body)) of
                None \<Rightarrow> (NotFound ''QR code not found or inactive'', d, [])
              | Some qr \<Rightarrow>
                  if r_status qr \<noteq> ''ACTIVE'' then (BadRequest ''Student is inactive'', d, [])
                  else
                   (case (if \<not> wantRecheck
                          then sameDayGuard e d (r_student_id qr) scanType (os_timezone org)
                          else None) of
                      Some conflict \<Rightarrow> (conflict, d, [])
                    | None \<Rightarrow>
                        let isDuplicate = (\<not> wantRecheck
                                           \<and> isDuplicateScan e d (r_student_id qr) scanType);
                            scan = newScanEvent e d qr scanType isDuplicate wantRecheck
                                     suppressByHeadcount;
                            d1 = insertScanEvent scan d
                        in
                        if isDuplicate then (DuplicateOk scan suppressByHeadcount, d1, [])
                        else
                          let gRows = guardiansOf d1 (r_student_id qr) in
                          if \<not> smsAllowed \<or> gRows = []
                          then (NoSmsOk scan smsAllowed suppressByHeadcount, d1, [])
                          else notifyGuardians e d1 qr scanType org (b_messageOverride body) scan
                                 gRows smsAllowed suppressByHeadcount)))"

text \<open>
  The query of \<^verbatim>\<open>getTodayStats\<close>: the scan events of today that are not duplicates,
  left-joined with their message logs, by ascending \<^verbatim>\<open>scanned_at\<close>. Rows with the
  same \<^verbatim>\<open>scanned_at\<close>, which PostgreSQL returns in an order of its choice, are kept in
  table order.
\<close>

definition todayStatsQuery :: "env \<Rightarrow> db \<Rightarrow> string \<Rightarrow> stat_row list" where
  "todayStatsQuery e d tz =
     sort_key sr_scanned_at
       (concat (map (\<lambda>se.
            let row = (\<lambda>has. \<lparr>sr_student_id = se_student_id se, sr_type = se_type se,
                                sr_scanned_at = se_scanned_at se, sr_has_message = has\<rparr>)
            in (case filter (\<lambda>ml. ml_scan_event_id ml = se_id se) (message_log d) of
                  [] \<Rightarrow> [row False]
                | ml # mls \<Rightarrow> map (\<lambda>x. row True) (ml # mls)))
          (filter (\<lambda>se. se_was_duplicate se \<noteq> Some True
                         \<and> localDate e tz (se_scanned_at se) = localDate e tz (dbNow e))
                  (scan_event d))))"

definition getTodayStats :: "env \<Rightarrow> db \<Rightarrow> today_stats" where
  "getTodayStats e d = todayStatsOfRows (todayStatsQuery e d (os_timezone (getOrgSettings e d)))"

section \<open>Linking a guardian to a student\<close>

text \<open>
  The statement shared by \<^verbatim>\<open>linkGuardian\<close> and \<^verbatim>\<open>maybeInsertGuardianLink\<close>:
  \<^verbatim>\<open>INSERT INTO student_guardian ... ON CONFLICT (student_id, guardian_id) DO UPDATE SET
  is_primary = EXCLUDED.is_primary\<close>.
\<close>

definition sameLink :: "nat \<Rightarrow> nat \<Rightarrow> student_guardian_row \<Rightarrow> bool" where
  "sameLink studentId guardianId r = (sg_student_id r = studentId \<and> sg_guardian_id r = guardianId)"

definition upsertStudentGuardian :: "nat \<Rightarrow> nat \<Rightarrow> bool \<Rightarrow> student_guardian_row list
                                      \<Rightarrow> student_guardian_row list" where
  "upsertStudentGuardian studentId guardianId isPrimary rows =
     (if list_ex (sameLink studentId guardianId) rows
      then map (\<lambda>r. if sameLink studentId guardianId r then r\<lparr>sg_is_primary := isPrimary\<rparr> else r) rows
      else rows @ [\<lparr>sg_student_id = studentId, sg_guardian_id = guardianId,
                     sg_is_primary = isPrimary\<rparr>])"

text \<open>
  Modelled from the spec: the foreign keys of \<^verbatim>\<open>student_guardian\<close>. The schema is not
  among the sources; the spec says that all relationships are simple foreign keys, so the
  statement fails when the student or the guardian does not exist.
\<close>

definition linkForeignKeysHold :: "db \<Rightarrow> nat \<Rightarrow> nat \<Rightarrow> bool" where
  "linkForeignKeysHold d studentId guardianId =
     (list_ex (\<lambda>s. st_id s = studentId) (student d)
      \<and> list_ex (\<lambda>g. g_id g = guardianId) (guardian d))"

datatype link_response = LinkBadRequest string | LinkOk | LinkServerError

text \<open>
  \<^verbatim>\<open>linkGuardian\<close>. The two identifiers are \<^verbatim>\<open>Number(req.params.id)\<close> and
  \<^verbatim>\<open>Number(req.params.gid)\<close>; a parameter that is not a number gives \<^verbatim>\<open>NaN\<close>, which
  is falsy as 0 is and is modelled by 0. The third argument is \<^verbatim>\<open>req.body?.isPrimary\<close>.
  The entry written to the administrators' log is left out.
\<close>

definition linkGuardian :: "nat \<Rightarrow> nat \<Rightarrow> jsval \<Rightarrow> db \<Rightarrow> link_response \<times> db" where
  "linkGuardian studentId guardianId isPrimary d =
     (if studentId = 0 \<or> guardianId = 0 then (LinkBadRequest ''Invalid ids'', d)
      else if \<not> linkForeignKeysHold d studentId guardianId then (LinkServerError, d)
      else (LinkOk, d\<lparr>student_guardian :=
                         upsertStudentGuardian studentId guardianId (truthy isPrimary)
                           (student_guardian d)\<rparr>))"

text \<open>A sequence of link requests for one pair, one \<^verbatim>\<open>isPrimary\<close> per request.\<close>

definition linkRepeatedly :: "nat \<Rightarrow> nat \<Rightarrow> jsval list \<Rightarrow> db \<Rightarrow> db" where
  "linkRepeatedly studentId guardianId ps d =
     foldl (\<lambda>d' p. snd (linkGuardian studentId guardianId p d')) d ps"

section \<open>QR codes\<close>

text \<open>
  A QR image is modelled by the text it encodes: \<^verbatim>\<open>QRCode.toBuffer(text)\<close> makes the
  image and the scanner reads the text back. The repository of images maps a path to
  the file stored there.
\<close>

definition toBuffer :: "string \<Rightarrow> string" where
  "toBuffer text = text"

definition pngPath :: "env \<Rightarrow> nat \<Rightarrow> string" where
  "pngPath e studentId = orElse (env_QR_REPO_DIR e) ''qr'' @ ''/qr_'' @ showNat studentId @ ''.png''"

text \<open>
  \<^verbatim>\<open>ensureActiveToken\<close>; \<open>k\<close> counts the values taken from \<^verbatim>\<open>crypto.randomUUID()\<close>.
\<close>

definition ensureActiveToken :: "env \<Rightarrow> nat \<Rightarrow> nat \<Rightarrow> db \<Rightarrow> string \<times> db \<times> nat" where
  "ensureActiveToken e k studentId d =
     (case (case List.find (\<lambda>q. qr_student_id q = studentId \<and> qr_active q) (qr_code d) of
              None \<Rightarrow> None
            | Some q \<Rightarrow> if qr_token q \<noteq> [] then Some (qr_token q) else None) of
        Some token \<Rightarrow> (token, d, k)
      | None \<Rightarrow>
          let token = randomUUID e k
          in (token,
              d\<lparr>qr_code := qr_code d @
                   [\<lparr>qr_id = qr_code_seq d + 1, qr_student_id = studentId, qr_token = token,
                     qr_active = True, qr_created_by = userIdOrNull e\<rparr>],
                qr_code_seq := qr_code_seq d + 1\<rparr>,
              k + 1))"

record gen_item =
  gi_studentId :: nat
  gi_ok :: bool
  gi_error :: "string option"

record gen_state =
  gs_db :: db
  gs_repo :: "(string \<times> string) list"
  gs_uuids :: nat
  gs_out :: "gen_item list"

text \<open>One round of the loop of \<^verbatim>\<open>generateQRCodes\<close>; the upload is taken to succeed.\<close>

definition generateOne :: "env \<Rightarrow> gen_state \<Rightarrow> nat \<Rightarrow> gen_state" where
  "generateOne e st sid =
     (if \<not> list_ex (\<lambda>s. st_id s = sid) (student (gs_db st))
      then st\<lparr>gs_out := gs_out st @ [\<lparr>gi_studentId = sid, gi_ok = False,
                                         gi_error = Some ''Student not found''\<rparr>]\<rparr>
      else
        let (token, d', k') = ensureActiveToken e (gs_uuids st) sid (gs_db st);
            buf = toBuffer token
        in \<lparr>gs_db = d', gs_repo = AList.update (pngPath e sid) buf (gs_repo st), gs_uuids = k',
            gs_out = gs_out st @ [\<lparr>gi_studentId = sid, gi_ok = True, gi_error = None\<rparr>]\<rparr>)"

datatype gen_response = GenBadRequest string | GenOk "gen_item list"

text \<open>
  \<^verbatim>\<open>generateQRCodes\<close> on the numbers of \<^verbatim>\<open>req.body.studentIds\<close>: the response, the
  database and the repository after the request.
\<close>

definition generateQRCodes :: "env \<Rightarrow> int list \<Rightarrow> db \<Rightarrow> (string \<times> string) list
                                \<Rightarrow> gen_response \<times> db \<times> (string \<times> string) list" where
  "generateQRCodes e ids d repo =
     (let studentIds = map nat (filter (\<lambda>n. n > 0) ids) in
      if studentIds = []
      then (GenBadRequest ''studentIds must be a non-empty array of integers'', d, repo)
      else
        let st = foldl (generateOne e)
                   \<lparr>gs_db = d, gs_repo = repo, gs_uuids = 0, gs_out = []\<rparr> studentIds
        in (GenOk (gs_out st), gs_db st, gs_repo st))"

text \<open>
  \<^verbatim>\<open>parseToken\<close> of the scan page. \<open>jsonParse\<close> is \<^verbatim>\<open>JSON.parse\<close>, \<open>None\<close> when it
  throws.
\<close>

definition parseToken :: "(string \<Rightarrow> jsval option) \<Rightarrow> string \<Rightarrow> string option" where
  "parseToken jsonParse raw =
     (case (case jsonParse raw of
              Some (JObj props) \<Rightarrow>
                (case map_of props ''token'' of
                   Some (JStr t) \<Rightarrow> if t \<noteq> [] then Some t else None
                 | _ \<Rightarrow> None)
            | _ \<Rightarrow> None) of
        Some t \<Rightarrow> Some t
      | None \<Rightarrow> if raw \<noteq> [] \<and> trim raw \<noteq> [] then Some (trim raw) else None)"

text \<open>
  The payload that \<^verbatim>\<open>scripts/generate-qr.js\<close> renders,
  \<^verbatim>\<open>JSON.stringify({ v: 1, token })\<close>, with the quoting of a JSON string.
\<close>

definition hexLower :: "nat \<Rightarrow> char" where
  "hexLower n = ''0123456789abcdef'' ! (n mod 16)"

definition quoteJSONChar :: "char \<Rightarrow> string" where
  "quoteJSONChar c =
     (if c = CHR 0x08 then [CHR 0x5C, CHR ''b''] else if c = CHR 0x09 then [CHR 0x5C, CHR ''t'']
      else if c = CHR 0x0A then [CHR 0x5C, CHR ''n''] else if c = CHR 0x0C then [CHR 0x5C, CHR ''f'']
      else if c = CHR 0x0D then [CHR 0x5C, CHR ''r''] else if c = CHR 0x22 then [CHR 0x5C, CHR 0x22]
      else if c = CHR 0x5C then [CHR 0x5C, CHR 0x5C]
      else if (of_char c :: nat) < 32
      then [CHR 0x5C, CHR ''u'', CHR ''0'', CHR ''0'', hexLower ((of_char c :: nat) div 16),
            hexLower (of_char c)]
      else [c])"

definition quoteJSONString :: "string \<Rightarrow> string" where
  "quoteJSONString s = [CHR 0x22] @ concat (map quoteJSONChar s) @ [CHR 0x22]"

definition scriptPayload :: "string \<Rightarrow> string" where
  "scriptPayload token =
     ''{'' @ quoteJSONString ''v'' @ '':1,'' @ quoteJSONString ''token'' @ '':''
       @ quoteJSONString token @ ''}''"

text \<open>The shape of a UUID: 8-4-4-4-12 hexadecimal digits.\<close>

definition isHexLower :: "char \<Rightarrow> bool" where
  "isHexLower c = (c \<in> set ''0123456789abcdef'')"

definition isUUID :: "string \<Rightarrow> bool" where
  "isUUID s =
     (length s = 36
      \<and> list_all (\<lambda>i. if i \<in> set [8, 13, 18, 23] then s ! i = CHR ''-'' else isHexLower (s ! i))
           [0 ..< 36])"

section \<open>Notions used to state the properties\<close>

text \<open>
  The steps that the two copies of \<^verbatim>\<open>toE164AU\<close> have in common, on the stripped
  string; used to compare them.
\<close>

definition normaliseAU :: "string \<Rightarrow> string" where
  "normaliseAU s0 =
     (if s0 = [] then []
      else let s = (if startsWith s0 ''+'' then drop 1 s0 else s0) in
        if startsWith s ''61'' then ''+61'' @ drop 2 s
        else if startsWith s ''0'' then ''+61'' @ drop 1 s
        else if isBareMobile s then ''+61'' @ s
        else [])"

text \<open>
  The upper-cased type of a request, the source's \<^verbatim>\<open>TYPE\<close>; empty when
  \<^verbatim>\<open>String(type)\<close> throws, so that it is then neither of the two types.
\<close>

definition scanTypeOf :: "scan_body \<Rightarrow> string" where
  "scanTypeOf body = (case jsString (b_type body) of None \<Rightarrow> [] | Some s \<Rightarrow> toUpperCase s)"

text \<open>
  A body on which \<^verbatim>\<open>String(type)\<close> throws, after the first validation has passed.
\<close>

definition throwsOnType :: "scan_body \<Rightarrow> bool" where
  "throwsOnType body =
     (truthy (b_qrCode body) \<and> truthy (b_type body) \<and> jsString (b_type body) = None)"

text \<open>A body that passes the two validations at the head of \<^verbatim>\<open>handleScan\<close>.\<close>

definition wellFormed :: "scan_body \<Rightarrow> bool" where
  "wellFormed body =
     (truthy (b_qrCode body) \<and> truthy (b_type body)
      \<and> scanTypeOf body \<in> set [''CHECK_IN'', ''CHECK_OUT''])"

text \<open>The scan event is of this student and type and falls on today's date in the zone.\<close>

definition sameDayScan :: "env \<Rightarrow> string \<Rightarrow> nat \<Rightarrow> string \<Rightarrow> scan_event_row \<Rightarrow> bool" where
  "sameDayScan e tz studentId scanType r =
     (se_student_id r = studentId \<and> se_type r = scanType
      \<and> localDate e tz (se_scanned_at r) = localDate e tz (dbNow e))"

text \<open>
  For a request that reaches step 3 with the resolved student \<open>qr\<close>: whether it is taken
  for a duplicate, whether SMS is allowed for it, and the row that step 4 inserts.
\<close>

definition isDuplicateFor :: "env \<Rightarrow> scan_body \<Rightarrow> db \<Rightarrow> qr_resolved \<Rightarrow> bool" where
  "isDuplicateFor e body d qr =
     (b_recheck body \<noteq> JBool True \<and> isDuplicateScan e d (r_student_id qr) (scanTypeOf body))"

definition smsAllowedFor :: "env \<Rightarrow> scan_body \<Rightarrow> db \<Rightarrow> bool" where
  "smsAllowedFor e body d =
     ((if scanTypeOf body = ''CHECK_IN'' then os_sendOnCheckIn (getOrgSettings e d)
       else os_sendOnCheckOut (getOrgSettings e d))
      \<and> b_headcountOnly body \<noteq> JBool True)"

definition recordedScan :: "env \<Rightarrow> scan_body \<Rightarrow> db \<Rightarrow> qr_resolved \<Rightarrow> scan_event_row" where
  "recordedScan e body d qr =
     newScanEvent e d qr (scanTypeOf body) (isDuplicateFor e body d qr)
       (b_recheck body = JBool True) (b_headcountOnly body = JBool True)"

text \<open>The request passes step 2: it is a re-check, or no scan of today stands against it.\<close>

definition passesGuard :: "env \<Rightarrow> scan_body \<Rightarrow> db \<Rightarrow> qr_resolved \<Rightarrow> bool" where
  "passesGuard e body d qr =
     (b_recheck body = JBool True
      \<or> list_all (\<lambda>r. \<not> sameDayScan e (os_timezone (getOrgSettings e d)) (r_student_id qr)
                         (scanTypeOf body) r)
           (scan_event d))"

text \<open>The messages that the gateway returned for the items, none when the call failed.\<close>

definition gatewayMessages :: "env \<Rightarrow> sms_item list \<Rightarrow> gw_message list" where
  "gatewayMessages e items = (case fst (sendSmsMany e items) of None \<Rightarrow> [] | Some ms \<Rightarrow> ms)"

text \<open>
  A template as a sequence of literal pieces and tokens, with the text it stands for and
  what each piece is expected to become: a literal itself, a token the value of its key
  in the token map or, when the key is not there, the token as written.
\<close>

datatype segment = Lit string | Tok string

fun segmentText :: "segment \<Rightarrow> string" where
  "segmentText (Lit s) = s"
| "segmentText (Tok k) = CHR ''{'' # k @ ''}''"

definition templateText :: "segment list \<Rightarrow> string" where
  "templateText segs = concat (map segmentText segs)"

fun expandSegment :: "env \<Rightarrow> render_ctx \<Rightarrow> segment \<Rightarrow> string" where
  "expandSegment e c (Lit s) = s"
| "expandSegment e c (Tok k) =
     (case map_of (tokenMap e c) k of Some v \<Rightarrow> v | None \<Rightarrow> CHR ''{'' # k @ ''}'')"

text \<open>
  A literal has no opening brace; the key of a token is not empty, has no closing brace
  and is not the name of a member of \<^verbatim>\<open>Object.prototype\<close>.
\<close>

fun plainSegment :: "segment \<Rightarrow> bool" where
  "plainSegment (Lit s) = (CHR ''{'' \<notin> set s)"
| "plainSegment (Tok k) = (k \<noteq> [] \<and> CHR ''}'' \<notin> set k \<and> k \<notin> set objectPrototypeKeys)"

text \<open>
  What is assumed of \<^verbatim>\<open>JSON.parse\<close>: it returns an object only for a text whose first
  character after JSON white space is an opening brace.
\<close>

definition isJsonWhiteSpace :: "char \<Rightarrow> bool" where
  "isJsonWhiteSpace c = (c = CHR 0x20 \<or> c = CHR 0x09 \<or> c = CHR 0x0A \<or> c = CHR 0x0D)"

definition objectsStartWithBrace :: "(string \<Rightarrow> jsval option) \<Rightarrow> bool" where
  "objectsStartWithBrace jsonParse =
     (\<forall>s props. jsonParse s = Some (JObj props)
        \<longrightarrow> (\<exists>rest. dropWhile isJsonWhiteSpace s = CHR ''{'' # rest))"

section \<open>Example data\<close>

text \<open>
  A small centre, used to run the functions on concrete inputs. The day number of a time
  is its UTC day; midnight of the example day is 1700006400000 and the request arrives
  thirty seconds after it. The JSON text of an object and the array literal of an array
  are written out for properties and elements that are strings or \<^verbatim>\<open>null\<close>.
\<close>

definition exToken :: string where
  "exToken = ''123e4567-e89b-12d3-a456-426614174000''"

definition exToken2 :: string where
  "exToken2 = ''9b2d1c3e-0f4a-4b6c-8d7e-5a1b2c3d4e5f''"

definition exEnv :: env where
  "exEnv =
     \<lparr>jsNow = 1700006430000, dbNow = 1700006430000,
      localDate = (\<lambda>tz t. t div 86400000),
      intlDateTime = (\<lambda>tz t. ''datetime in '' @ tz),
      intlDate = (\<lambda>tz t. ''Wed, 15 Nov 2023''),
      intlTime = (\<lambda>tz t. ''11:00 am AEDT''),
      clickSend = (\<lambda>items. Some (map (\<lambda>i. \<lparr>m_to = i_to i, m_message_id = Some ''M1'',
                     m_status = Some (if i_to i = ''+61400000001'' then ''SUCCESS''
                                      else ''INVALID_RECIPIENT'')\<rparr>) items)),
      userId = Some 7, env_APP_TZ = None, env_CENTER_NAME = None, env_QR_REPO_DIR = None,
      inheritedText = (\<lambda>k. if k = ''constructor'' then ''function Object() { [native code] }''
                            else if k = ''__proto__'' then ''[object Object]''
                            else ''function '' @ k @ ''() { [native code] }''),
      randomUUID = (\<lambda>k. exToken2),
      jsonStringify = (\<lambda>kvs. ''{'' @ joinWith '',''
                         (map (\<lambda>(k, v). quoteJSONString k @ '':''
                                 @ (case v of JStr s \<Rightarrow> quoteJSONString s | _ \<Rightarrow> ''null'')) kvs)
                       @ ''}''),
      arrayString = (\<lambda>xs. ''{'' @ joinWith '',''
                       (map (\<lambda>x. case x of
                                    JStr s \<Rightarrow> [CHR 0x22]
                                      @ concat (map (\<lambda>c. if c = CHR 0x22 \<or> c = CHR 0x5C
                                                          then [CHR 0x5C, c] else [c]) s)
                                      @ [CHR 0x22]
                                  | _ \<Rightarrow> ''NULL'') xs)
                     @ ''}'')\<rparr>"

definition exDb :: db where
  "exDb =
     \<lparr>qr_code = [\<lparr>qr_id = 1, qr_student_id = 1, qr_token = exToken, qr_active = True,
                   qr_created_by = None\<rparr>],
      student = [\<lparr>st_id = 1, st_first_name = Some ''Ada'', st_last_name = Some ''Lovelace'',
                   st_status = ''ACTIVE''\<rparr>,
                 \<lparr>st_id = 2, st_first_name = Some ''Bob'', st_last_name = Some ''Brown'',
                   st_status = ''ACTIVE''\<rparr>],
      scan_event = [],
      guardian = [\<lparr>g_id = 1, g_phone_e164 = ''+61400000001'', g_active = True, g_phone_valid = True\<rparr>,
                  \<lparr>g_id = 2, g_phone_e164 = ''+61400000002'', g_active = True, g_phone_valid = True\<rparr>,
                  \<lparr>g_id = 3, g_phone_e164 = ''+61400000003'', g_active = True, g_phone_valid = False\<rparr>],
      student_guardian = [\<lparr>sg_student_id = 1, sg_guardian_id = 1, sg_is_primary = True\<rparr>,
                          \<lparr>sg_student_id = 1, sg_guardian_id = 2, sg_is_primary = False\<rparr>,
                          \<lparr>sg_student_id = 1, sg_guardian_id = 3, sg_is_primary = False\<rparr>],
      message_template = [],
      message_log = [], message_recipient = [],
      setting_center_profile = None, setting_sms_policy = None,
      qr_code_seq = 1, scan_event_seq = 0, message_log_seq = 0\<rparr>"

text \<open>An earlier check-in of student 1 at the given time.\<close>

definition exScanAt :: "int \<Rightarrow> scan_event_row" where
  "exScanAt t = \<lparr>se_id = 1, se_student_id = 1, se_qr_code_id = 1, se_type = ''CHECK_IN'',
                 se_scanned_by = Some 7, se_scanned_at = t, se_was_duplicate = Some False,
                 se_meta = []\<rparr>"

definition exDbScanned :: "int \<Rightarrow> db" where
  "exDbScanned t = exDb\<lparr>scan_event := [exScanAt t], scan_event_seq := 1\<rparr>"

text \<open>The same, with student 1 made inactive after that scan.\<close>

definition exDbInactive :: "int \<Rightarrow> db" where
  "exDbInactive t =
     (exDbScanned t)\<lparr>student := [\<lparr>st_id = 1, st_first_name = Some ''Ada'',
                                    st_last_name = Some ''Lovelace'', st_status = ''INACTIVE''\<rparr>]\<rparr>"

text \<open>What the query of step 1 returns for the token of student 1.\<close>

definition exQr :: qr_resolved where
  "exQr = \<lparr>r_qr_id = 1, r_student_id = 1, r_first_name = Some ''Ada'',
           r_last_name = Some ''Lovelace'', r_status = ''ACTIVE''\<rparr>"

definition exBody :: scan_body where
  "exBody = \<lparr>b_qrCode = JStr exToken, b_type = JStr ''check_in'', b_messageOverride = JUndefined,
             b_recheck = JUndefined, b_headcountOnly = JUndefined\<rparr>"

text \<open>The context that \<^verbatim>\<open>handleScan\<close> passes to the renderer for student 1.\<close>

definition exCtx :: render_ctx where
  "exCtx = \<lparr>c_student = \<lparr>rs_first_name = Some ''Ada'', rs_firstName = None,
                          rs_last_name = Some ''Lovelace'', rs_lastName = None, rs_id = Some 1\<rparr>,
            c_type = Some ''CHECK_IN'', c_now = 1700006430000, c_centerName = Some ''Kumon'',
            c_centreName = None, c_tz = None, c_timezone = Some ''Australia/Hobart''\<rparr>"

definition exTemplate :: "segment list" where
  "exTemplate = [Tok ''student.fullName'', Lit '' checked in at '', Tok ''time'', Lit '' on '',
                 Tok ''date'', Lit '' ('', Tok ''centre.name'', Lit ''). Ref '',
                 Tok ''booking.ref'', Lit '' '']"

text \<open>A parser that knows the payload of the script for the example token, and nothing else.\<close>

definition exJsonParse :: "string \<Rightarrow> jsval option" where
  "exJsonParse s = (if s = scriptPayload exToken
                    then Some (JObj [(''v'', JNum ''1''), (''token'', JStr exToken)]) else None)"

text \<open>
  The same centre when the second guardian of student 1 has the phone of the first, as
  after a repeated import of the same row, and a gateway account whose credit pays for one
  message: the first message of a call succeeds and the others are refused.
\<close>

definition exDbShared :: db where
  "exDbShared =
     exDb\<lparr>guardian :=
            [\<lparr>g_id = 1, g_phone_e164 = ''+61400000001'', g_active = True, g_phone_valid = True\<rparr>,
             \<lparr>g_id = 2, g_phone_e164 = ''+61400000001'', g_active = True, g_phone_valid = True\<rparr>,
             \<lparr>g_id = 3, g_phone_e164 = ''+61400000003'', g_active = True, g_phone_valid = False\<rparr>]\<rparr>"

definition exEnvCredit :: env where
  "exEnvCredit =
     exEnv\<lparr>clickSend :=
             (\<lambda>items. Some (map (\<lambda>(k, i). \<lparr>m_to = i_to i, m_message_id = Some ''M1'',
                                   m_status = Some (if k = 0 then ''SUCCESS''
                                                    else ''INSUFFICIENT_CREDIT'')\<rparr>)
                                 (enumerate 0 items)))\<rparr>"

text \<open>A request whose type is an object with a property \<^verbatim>\<open>toString\<close> of its own.\<close>

definition exThrowBody :: scan_body where
  "exThrowBody = exBody\<lparr>b_type := JObj [(''toString'', JStr ''x'')]\<rparr>"

text \<open>A request with an unknown token and a type that is neither check-in nor check-out.\<close>

definition exBadBody :: scan_body where
  "exBadBody = \<lparr>b_qrCode = JStr ''no-such-token'', b_type = JStr ''VISIT'',
                b_messageOverride = JUndefined, b_recheck = JUndefined,
                b_headcountOnly = JUndefined\<rparr>"

section \<open>Properties of the phone normaliser\<close>

lemma filter_dropWhile_disj:
  "(\<And>x. Q x \<Longrightarrow> \<not> P x) \<Longrightarrow> filter P (dropWhile Q xs) = filter P xs"
  by (induction xs) auto

lemma ws_not_kept: "isJsWhiteSpace c \<Longrightarrow> \<not> (isDigit c \<or> c = CHR ''+'')"
  by (auto simp: isJsWhiteSpace_def isDigit_def)

lemma strip_trim: "stripNonDigitPlus (trim s) = stripNonDigitPlus s"
proof -
  let ?P = "\<lambda>c. isDigit c \<or> c = CHR ''+''"
  have "filter ?P (rev (dropWhile isJsWhiteSpace (rev (dropWhile isJsWhiteSpace s))))
        = rev (filter ?P (dropWhile isJsWhiteSpace (rev (dropWhile isJsWhiteSpace s))))"
    by (simp add: rev_filter)
  also have "\<dots> = rev (filter ?P (rev (dropWhile isJsWhiteSpace s)))"
    using ws_not_kept by (simp add: filter_dropWhile_disj)
  also have "\<dots> = filter ?P (dropWhile isJsWhiteSpace s)"
    by (simp add: rev_filter)
  also have "\<dots> = filter ?P s"
    using ws_not_kept by (simp add: filter_dropWhile_disj)
  finally show ?thesis by (simp add: stripNonDigitPlus_def trim_def)
qed

lemma strip_idem: "list_all (\<lambda>c. isDigit c \<or> c = CHR ''+'') r \<Longrightarrow> stripNonDigitPlus r = r"
  by (simp add: stripNonDigitPlus_def list_all_iff)

lemma strip_all: "list_all (\<lambda>c. isDigit c \<or> c = CHR ''+'') (stripNonDigitPlus s)"
  by (simp add: stripNonDigitPlus_def list_all_iff)

lemma normaliseAU_shape:
  "normaliseAU s = [] \<or> (\<exists>n. normaliseAU s = ''+61'' @ drop n s)"
proof (cases "s = []")
  case True
  then show ?thesis by (simp add: normaliseAU_def)
next
  case False
  define t where "t = (if startsWith s ''+'' then drop 1 s else s)"
  have t: "\<exists>m. t = drop m s"
  proof (cases "startsWith s ''+''")
    case True
    then have "t = drop 1 s" by (simp add: t_def)
    then show ?thesis by blast
  next
    case False
    then have "t = drop 0 s" by (simp add: t_def)
    then show ?thesis by blast
  qed
  then obtain m where m: "t = drop m s" by blast
  have n: "normaliseAU s =
        (if startsWith t ''61'' then ''+61'' @ drop 2 t
         else if startsWith t ''0'' then ''+61'' @ drop 1 t
         else if isBareMobile t then ''+61'' @ t else [])"
    using False by (simp add: normaliseAU_def t_def Let_def)
  have d2: "drop 2 t = drop (2 + m) s" and d1: "drop 1 t = drop (1 + m) s"
    by (simp_all add: m)
  show ?thesis
    unfolding n using d2 d1 m by (metis (full_types))
qed

lemma normaliseAU_fix: "normaliseAU (''+61'' @ r) = ''+61'' @ r"
  by (simp add: normaliseAU_def startsWith_def)

lemma list_all_drop: "list_all P xs \<Longrightarrow> list_all P (drop n xs)"
  by (metis append_take_drop_id list_all_append)

lemma toE164AU_guardian_eq: "toE164AU_guardian x = normaliseAU (stripNonDigitPlus (trim x))"
  by (simp add: toE164AU_guardian_def normaliseAU_def Let_def)

lemma toE164AU_import_eq: "toE164AU_import x = normaliseAU (stripNonDigitPlus x)"
  by (simp add: toE164AU_import_def normaliseAU_def Let_def)

text \<open>
  Claim C9. The copy of \<^verbatim>\<open>toE164AU\<close> in the guardian controller and the copy in the
  import controller return the same string on every input string. The result is empty or
  begins with \<open>+61\<close>, and applying the function to a result that is not empty gives that
  result again.
\<close>

theorem toE164AU_copies_agree:
  "toE164AU_guardian x = toE164AU_import x
   \<and> (toE164AU_import x = [] \<or> startsWith (toE164AU_import x) ''+61'')
   \<and> (toE164AU_import x \<noteq> [] \<longrightarrow> toE164AU_import (toE164AU_import x) = toE164AU_import x)
   \<and> (toE164AU_guardian x \<noteq> [] \<longrightarrow> toE164AU_guardian (toE164AU_guardian x) = toE164AU_guardian x)"
proof -
  have eq: "\<And>y. toE164AU_guardian y = toE164AU_import y"
    by (simp add: toE164AU_guardian_eq toE164AU_import_eq strip_trim)
  let ?s = "stripNonDigitPlus x"
  from normaliseAU_shape [of ?s] have
    shape: "toE164AU_import x = [] \<or> (\<exists>r n. toE164AU_import x = ''+61'' @ r \<and> r = drop n ?s)"
    unfolding toE164AU_import_eq by blast
  have pre: "toE164AU_import x = [] \<or> startsWith (toE164AU_import x) ''+61''"
    using shape by (auto simp: startsWith_def)
  have idem: "toE164AU_import (toE164AU_import x) = toE164AU_import x" if ne: "toE164AU_import x \<noteq> []"
  proof -
    from shape ne obtain r n where r: "toE164AU_import x = ''+61'' @ r" "r = drop n ?s" by auto
    have "list_all (\<lambda>c. isDigit c \<or> c = CHR ''+'') r"
      using r(2) strip_all list_all_drop by blast
    then have "list_all (\<lambda>c. isDigit c \<or> c = CHR ''+'') (''+61'' @ r)"
      by (simp add: isDigit_def)
    then have "stripNonDigitPlus (''+61'' @ r) = ''+61'' @ r" by (rule strip_idem)
    then show ?thesis using r(1) normaliseAU_fix by (simp add: toE164AU_import_eq)
  qed
  show ?thesis using eq pre idem by auto
qed

theorem toE164AU_copies_agree_witness:
  "toE164AU_import '' 0436 536 668'' = ''+61436536668''
   \<and> toE164AU_import '' 0436 536 668'' \<noteq> []
   \<and> toE164AU_guardian '' 0436 536 668'' = toE164AU_import '' 0436 536 668''
   \<and> toE164AU_import (toE164AU_import '' 0436 536 668'') = toE164AU_import '' 0436 536 668''
   \<and> toE164AU_guardian (toE164AU_guardian '' 0436 536 668'') = toE164AU_guardian '' 0436 536 668''"
proof -
  have v: "toE164AU_import '' 0436 536 668'' = ''+61436536668''"
    by (simp add: toE164AU_import_def stripNonDigitPlus_def isDigit_def startsWith_def Let_def)
  then have ne: "toE164AU_import '' 0436 536 668'' \<noteq> []" by simp
  note t = toE164AU_copies_agree [of "'' 0436 536 668''"]
  from t have g: "toE164AU_guardian '' 0436 536 668'' = toE164AU_import '' 0436 536 668''"
    by blast
  from t ne have i: "toE164AU_import (toE164AU_import '' 0436 536 668'')
                     = toE164AU_import '' 0436 536 668''"
    by blast
  from t g ne have gg: "toE164AU_guardian (toE164AU_guardian '' 0436 536 668'')
                        = toE164AU_guardian '' 0436 536 668''"
    by metis
  from v ne g i gg show ?thesis by blast
qed

section \<open>Properties of today's statistics\<close>

lemma count_update_le:
  "length (filter P (AList.update k v xs)) \<le> length (filter P xs) + (if P (k, v) then 1 else 0)"
  by (induction xs) (auto)

lemma stats_step_inv:
  assumes "length (filter (\<lambda>kv. snd (snd kv) = ''CHECK_IN'') (acc_latestByStudent a)) \<le> acc_todayIn a"
  shows "length (filter (\<lambda>kv. snd (snd kv) = ''CHECK_IN'') (acc_latestByStudent (stats_step a r)))
         \<le> acc_todayIn (stats_step a r)"
proof -
  let ?P = "\<lambda>kv::nat \<times> int \<times> string. snd (snd kv) = ''CHECK_IN''"
  have u: "length (filter ?P (AList.update k (ts, ty) (acc_latestByStudent a)))
        \<le> length (filter ?P (acc_latestByStudent a)) + (if ty = ''CHECK_IN'' then 1 else 0)" for k ts ty
    using count_update_le [of ?P k "(ts, ty)" "acc_latestByStudent a"] by simp
  show ?thesis
    using assms u [of "sr_student_id r" "sr_scanned_at r" "toUpperCase (sr_type r)"]
    by (auto simp: stats_step_def Let_def split: option.splits)
qed

lemma stats_fold_inv:
  "length (filter (\<lambda>kv. snd (snd kv) = ''CHECK_IN'') (acc_latestByStudent a)) \<le> acc_todayIn a
   \<Longrightarrow> length (filter (\<lambda>kv. snd (snd kv) = ''CHECK_IN'') (acc_latestByStudent (foldl stats_step a rows)))
         \<le> acc_todayIn (foldl stats_step a rows)"
  by (induction rows arbitrary: a) (auto intro: stats_step_inv)

text \<open>
  Claim C10. Whatever rows the query of \<^verbatim>\<open>getTodayStats\<close> returns, the response has
  \<open>nonSmsTotal = nonSmsIn + nonSmsOut\<close>, and \<open>onCampusToday\<close>, the number of students
  whose latest row is a check-in, is at most \<open>todayIn\<close>, the number of check-in rows. This
  holds for the loop on any list of rows and so for the response computed from the tables.
\<close>

theorem getTodayStats_totals:
  "nonSmsTotal (todayStatsOfRows rows)
     = nonSmsIn (todayStatsOfRows rows) + nonSmsOut (todayStatsOfRows rows)
   \<and> onCampusToday (todayStatsOfRows rows) \<le> todayIn (todayStatsOfRows rows)
   \<and> nonSmsTotal (getTodayStats e d) = nonSmsIn (getTodayStats e d) + nonSmsOut (getTodayStats e d)
   \<and> onCampusToday (getTodayStats e d) \<le> todayIn (getTodayStats e d)"
proof -
  have init: "length (filter (\<lambda>kv. snd (snd kv) = ''CHECK_IN'') (acc_latestByStudent stats_init))
              \<le> acc_todayIn stats_init"
    by (simp add: stats_init_def)
  have rows: "nonSmsTotal (todayStatsOfRows rs)
                = nonSmsIn (todayStatsOfRows rs) + nonSmsOut (todayStatsOfRows rs)
              \<and> onCampusToday (todayStatsOfRows rs) \<le> todayIn (todayStatsOfRows rs)" for rs
    using stats_fold_inv [OF init, of rs] by (simp add: todayStatsOfRows_def Let_def)
  show ?thesis
    using rows [of rows] rows [of "todayStatsQuery e d (os_timezone (getOrgSettings e d))"]
    by (simp add: getTodayStats_def)
qed

section \<open>Properties of linking\<close>

lemma sameLink_update [simp]:
  "sameLink s g (r\<lparr>sg_is_primary := p\<rparr>) = sameLink s g r"
  by (simp add: sameLink_def)

lemma upsert_same:
  assumes "length (filter (sameLink s g) rows) \<le> 1"
  shows "filter (sameLink s g) (upsertStudentGuardian s g p rows)
         = [\<lparr>sg_student_id = s, sg_guardian_id = g, sg_is_primary = p\<rparr>]"
proof (cases "list_ex (sameLink s g) rows")
  case False
  then have "filter (sameLink s g) rows = []"
    by (auto simp: list_ex_iff filter_empty_conv)
  with False show ?thesis
    by (simp add: upsertStudentGuardian_def sameLink_def)
next
  case True
  then have "filter (sameLink s g) rows \<noteq> []"
    by (auto simp: list_ex_iff filter_empty_conv)
  with assms obtain r where r: "filter (sameLink s g) rows = [r]"
    by (cases "filter (sameLink s g) rows") auto
  then have "r \<in> set (filter (sameLink s g) rows)" by simp
  then have sl: "sameLink s g r" by simp
  have "filter (sameLink s g)
          (map (\<lambda>r. if sameLink s g r then r\<lparr>sg_is_primary := p\<rparr> else r) rows)
        = map (\<lambda>r. r\<lparr>sg_is_primary := p\<rparr>) (filter (sameLink s g) rows)"
    by (induction rows) auto
  also have "\<dots> = [r\<lparr>sg_is_primary := p\<rparr>]" by (simp add: r)
  also have "\<dots> = [\<lparr>sg_student_id = s, sg_guardian_id = g, sg_is_primary = p\<rparr>]"
    using sl by (cases r) (simp add: sameLink_def)
  finally show ?thesis using True by (simp add: upsertStudentGuardian_def)
qed

lemma upsert_others:
  "filter (\<lambda>r. \<not> sameLink s g r) (upsertStudentGuardian s g p rows)
   = filter (\<lambda>r. \<not> sameLink s g r) rows"
proof -
  have "filter (\<lambda>r. \<not> sameLink s g r)
          (map (\<lambda>r. if sameLink s g r then r\<lparr>sg_is_primary := p\<rparr> else r) rows)
        = filter (\<lambda>r. \<not> sameLink s g r) rows"
    by (induction rows) auto
  then show ?thesis by (simp add: upsertStudentGuardian_def sameLink_def)
qed

lemma upsert_repeat:
  assumes "length (filter (sameLink s g) rows) \<le> 1" "ps \<noteq> []"
  shows "filter (sameLink s g) (foldl (\<lambda>rs p. upsertStudentGuardian s g p rs) rows ps)
           = [\<lparr>sg_student_id = s, sg_guardian_id = g, sg_is_primary = last ps\<rparr>]
         \<and> filter (\<lambda>r. \<not> sameLink s g r) (foldl (\<lambda>rs p. upsertStudentGuardian s g p rs) rows ps)
           = filter (\<lambda>r. \<not> sameLink s g r) rows"
  using assms
proof (induction ps arbitrary: rows)
  case Nil
  then show ?case by simp
next
  case (Cons p ps)
  let ?rows1 = "upsertStudentGuardian s g p rows"
  have one: "filter (sameLink s g) ?rows1 = [\<lparr>sg_student_id = s, sg_guardian_id = g, sg_is_primary = p\<rparr>]"
    using Cons.prems(1) by (rule upsert_same)
  show ?case
  proof (cases "ps = []")
    case True
    then show ?thesis using one by (simp add: upsert_others)
  next
    case False
    have "length (filter (sameLink s g) ?rows1) \<le> 1" by (simp add: one)
    from Cons.IH [OF this False] False show ?thesis by (simp add: upsert_others)
  qed
qed

lemma linkRepeatedly_tables:
  assumes "s \<noteq> 0" "g \<noteq> 0" "linkForeignKeysHold d s g"
  shows "student_guardian (linkRepeatedly s g ps d)
           = foldl (\<lambda>rs p. upsertStudentGuardian s g p rs) (student_guardian d) (map truthy ps)
         \<and> student (linkRepeatedly s g ps d) = student d
         \<and> guardian (linkRepeatedly s g ps d) = guardian d"
  using assms
proof (induction ps arbitrary: d)
  case Nil
  then show ?case by (simp add: linkRepeatedly_def)
next
  case (Cons p ps)
  let ?d1 = "snd (linkGuardian s g p d)"
  have d1: "?d1 = d\<lparr>student_guardian := upsertStudentGuardian s g (truthy p) (student_guardian d)\<rparr>"
    using Cons.prems by (simp add: linkGuardian_def)
  then have fk: "linkForeignKeysHold ?d1 s g"
    using Cons.prems(3) by (simp add: linkForeignKeysHold_def)
  have "linkRepeatedly s g (p # ps) d = linkRepeatedly s g ps ?d1"
    by (simp add: linkRepeatedly_def)
  with Cons.IH [OF Cons.prems(1,2) fk] d1 show ?case by simp
qed

text \<open>
  Claim C8. For a student and a guardian that exist, with at most one row for the pair
  in \<^verbatim>\<open>student_guardian\<close> (the constraint that \<^verbatim>\<open>ON CONFLICT\<close> names), any sequence of
  one or more link requests for the pair leaves exactly one row for the pair, whose
  \<^verbatim>\<open>is_primary\<close> is the value of the last request; the rows of other pairs are kept.
  The statement itself, which the import runs too, leaves exactly one row for its pair.
\<close>

theorem linkGuardian_idempotent:
  assumes "studentId \<noteq> 0" and "guardianId \<noteq> 0"
    and "linkForeignKeysHold d studentId guardianId"
    and "length (filter (sameLink studentId guardianId) (student_guardian d)) \<le> 1"
    and "ps \<noteq> []"
  shows "filter (sameLink studentId guardianId)
           (student_guardian (linkRepeatedly studentId guardianId ps d))
         = [\<lparr>sg_student_id = studentId, sg_guardian_id = guardianId,
             sg_is_primary = truthy (last ps)\<rparr>]
       \<and> filter (\<lambda>r. \<not> sameLink studentId guardianId r)
           (student_guardian (linkRepeatedly studentId guardianId ps d))
         = filter (\<lambda>r. \<not> sameLink studentId guardianId r) (student_guardian d)
       \<and> filter (sameLink studentId guardianId)
           (upsertStudentGuardian studentId guardianId isPrimary (student_guardian d))
         = [\<lparr>sg_student_id = studentId, sg_guardian_id = guardianId, sg_is_primary = isPrimary\<rparr>]"
proof -
  have ne: "map truthy ps \<noteq> []" using assms(5) by simp
  have l: "last (map truthy ps) = truthy (last ps)" using assms(5) by (simp add: last_map)
  from upsert_repeat [OF assms(4) ne] linkRepeatedly_tables [OF assms(1,2,3), of ps] l
    upsert_same [OF assms(4), of isPrimary]
  show ?thesis by simp
qed

theorem linkGuardian_idempotent_witness:
  "(2::nat) \<noteq> 0 \<and> (1::nat) \<noteq> 0 \<and> linkForeignKeysHold exDb 2 1
   \<and> length (filter (sameLink 2 1) (student_guardian exDb)) \<le> 1
   \<and> [JBool True, JUndefined, JStr ''yes''] \<noteq> []
   \<and> filter (sameLink 2 1)
        (student_guardian (linkRepeatedly 2 1 [JBool True, JUndefined, JStr ''yes''] exDb))
      = [\<lparr>sg_student_id = 2, sg_guardian_id = 1, sg_is_primary = True\<rparr>]"
proof -
  have fk: "linkForeignKeysHold exDb 2 1"
    by (simp add: linkForeignKeysHold_def exDb_def)
  have uq: "length (filter (sameLink 2 1) (student_guardian exDb)) \<le> 1"
    by (simp add: exDb_def sameLink_def)
  have ne: "[JBool True, JUndefined, JStr ''yes''] \<noteq> []" by simp
  have ids: "(2::nat) \<noteq> 0" "(1::nat) \<noteq> 0" by simp_all
  from linkGuardian_idempotent [OF ids fk uq ne] fk uq show ?thesis by simp
qed

section \<open>Properties of the scan controller\<close>

lemma latestScan_None_iff: "latestScan xs = None \<longleftrightarrow> xs = []"
  by (induction xs) (auto split: option.splits)

lemma latestScan_Some:
  "latestScan xs = Some r \<Longrightarrow> r \<in> set xs \<and> (\<forall>x\<in>set xs. se_scanned_at x \<le> se_scanned_at r)"
proof (induction xs arbitrary: r)
  case Nil
  then show ?case by simp
next
  case (Cons a xs)
  show ?case
  proof (cases "latestScan xs")
    case None
    then have "xs = []" by (simp add: latestScan_None_iff)
    with Cons.prems show ?thesis by simp
  next
    case (Some r')
    from Cons.IH [OF Some] have ih: "r' \<in> set xs" "\<forall>x\<in>set xs. se_scanned_at x \<le> se_scanned_at r'"
      by auto
    show ?thesis
    proof (cases "se_scanned_at r' > se_scanned_at a")
      case True
      with Some Cons.prems have "r = r'" by simp
      with ih True show ?thesis by auto
    next
      case False
      with Some Cons.prems have "r = a" by simp
      with ih False show ?thesis by fastforce
    qed
  qed
qed

lemma getTodayOfType_None_iff:
  "getTodayOfType e d sid ty tz = None \<longleftrightarrow> (\<forall>r\<in>set (scan_event d). \<not> sameDayScan e tz sid ty r)"
  by (auto simp: getTodayOfType_def latestScan_None_iff sameDayScan_def filter_empty_conv)

lemma getTodayOfType_Some:
  "getTodayOfType e d sid ty tz = Some r \<Longrightarrow>
     r \<in> set (scan_event d) \<and> sameDayScan e tz sid ty r
     \<and> (\<forall>x\<in>set (scan_event d). sameDayScan e tz sid ty x \<longrightarrow> se_scanned_at x \<le> se_scanned_at r)"
  unfolding getTodayOfType_def
  by (drule latestScan_Some) (auto simp: sameDayScan_def)

lemma sameDayGuard_None_iff:
  "ty \<in> set [''CHECK_IN'', ''CHECK_OUT''] \<Longrightarrow>
   sameDayGuard e d sid ty tz = None \<longleftrightarrow> (\<forall>r\<in>set (scan_event d). \<not> sameDayScan e tz sid ty r)"
  by (auto simp: sameDayGuard_def getTodayCheckIn_def getTodayCheckOut_def
        getTodayOfType_None_iff [symmetric] split: option.splits)

lemma sameDayGuard_Some:
  "ty \<in> set [''CHECK_IN'', ''CHECK_OUT''] \<Longrightarrow> sameDayGuard e d sid ty tz = Some c \<Longrightarrow>
   \<exists>r. getTodayOfType e d sid ty tz = Some r
     \<and> c = Conflict (if ty = ''CHECK_IN'' then ''already_checked_in_today''
                      else ''already_checked_out_today'')
                     (formatDateTimeTZ e (se_scanned_at r) tz)"
  by (auto simp: sameDayGuard_def getTodayCheckIn_def getTodayCheckOut_def
        split: option.splits if_splits)

lemma prepareValue_JStr [simp]: "prepareValue e (JStr s) = Some s"
  by (simp add: prepareValue_def)

lemma wellFormed_type:
  "wellFormed body \<Longrightarrow> jsString (b_type body) = Some t \<Longrightarrow> toUpperCase t = scanTypeOf body"
  by (simp add: scanTypeOf_def)

lemma wellFormed_typeText:
  assumes "wellFormed body"
  shows "\<exists>t. jsString (b_type body) = Some t \<and> toUpperCase t = scanTypeOf body"
proof (cases "jsString (b_type body)")
  case None
  then have "scanTypeOf body = []" by (simp add: scanTypeOf_def)
  with assms show ?thesis by (simp add: wellFormed_def)
next
  case (Some t)
  then show ?thesis by (simp add: scanTypeOf_def)
qed

lemma wellFormed_not_throws: "wellFormed body \<Longrightarrow> \<not> throwsOnType body"
  using wellFormed_typeText [of body] by (auto simp: throwsOnType_def)

lemma handleScan_early:
  "\<not> wellFormed body \<Longrightarrow> \<not> throwsOnType body \<Longrightarrow>
   \<exists>m. handleScan e body d = (BadRequest m, d, [])"
  by (cases "jsString (b_type body)")
     (auto simp: handleScan_def wellFormed_def throwsOnType_def scanTypeOf_def Let_def)

lemma handleScan_throws:
  "throwsOnType body \<Longrightarrow> handleScan e body d = (ServerError, d, [])"
  by (simp add: handleScan_def throwsOnType_def)

lemma handleScan_wellFormed:
  assumes "wellFormed body"
  shows "handleScan e body d =
     (case resolveQr d (prepareValue e (b_qrCode body)) of
        None \<Rightarrow> (NotFound ''QR code not found or inactive'', d, [])
      | Some qr \<Rightarrow>
          if r_status qr \<noteq> ''ACTIVE'' then (BadRequest ''Student is inactive'', d, [])
          else
           (case (if b_recheck body \<noteq> JBool True
                  then sameDayGuard e d (r_student_id qr) (scanTypeOf body)
                         (os_timezone (getOrgSettings e d))
                  else None) of
              Some conflict \<Rightarrow> (conflict, d, [])
            | None \<Rightarrow>
                if isDuplicateFor e body d qr
                then (DuplicateOk (recordedScan e body d qr) (b_headcountOnly body = JBool True),
                      insertScanEvent (recordedScan e body d qr) d, [])
                else if \<not> smsAllowedFor e body d
                          \<or> guardiansOf (insertScanEvent (recordedScan e body d qr) d)
                               (r_student_id qr) = []
                then (NoSmsOk (recordedScan e body d qr) (smsAllowedFor e body d)
                        (b_headcountOnly body = JBool True),
                      insertScanEvent (recordedScan e body d qr) d, [])
                else notifyGuardians e (insertScanEvent (recordedScan e body d qr) d) qr
                       (scanTypeOf body) (getOrgSettings e d) (b_messageOverride body)
                       (recordedScan e body d qr)
                       (guardiansOf (insertScanEvent (recordedScan e body d qr) d)
                          (r_student_id qr))
                       (smsAllowedFor e body d) (b_headcountOnly body = JBool True)))"
proof -
  from wellFormed_typeText [OF assms] obtain t
    where t: "jsString (b_type body) = Some t" "toUpperCase t = scanTypeOf body" by blast
  from assms have wf: "truthy (b_qrCode body)" "truthy (b_type body)"
    "scanTypeOf body = ''CHECK_IN'' \<or> scanTypeOf body = ''CHECK_OUT''"
    by (simp_all add: wellFormed_def)
  show ?thesis
    using wf t
    by (auto simp: handleScan_def Let_def isDuplicateFor_def smsAllowedFor_def recordedScan_def
          split: option.splits)
qed

lemma handleScan_unresolved:
  "wellFormed body \<Longrightarrow> resolveQr d (prepareValue e (b_qrCode body)) = None \<Longrightarrow>
   handleScan e body d = (NotFound ''QR code not found or inactive'', d, [])"
  by (simp add: handleScan_wellFormed)

lemma handleScan_inactive:
  "wellFormed body \<Longrightarrow> resolveQr d (prepareValue e (b_qrCode body)) = Some qr \<Longrightarrow>
   r_status qr \<noteq> ''ACTIVE'' \<Longrightarrow>
   handleScan e body d = (BadRequest ''Student is inactive'', d, [])"
  by (simp add: handleScan_wellFormed)

lemma handleScan_conflict:
  "wellFormed body \<Longrightarrow> resolveQr d (prepareValue e (b_qrCode body)) = Some qr \<Longrightarrow>
   r_status qr = ''ACTIVE'' \<Longrightarrow> b_recheck body \<noteq> JBool True \<Longrightarrow>
   sameDayGuard e d (r_student_id qr) (scanTypeOf body) (os_timezone (getOrgSettings e d)) = Some c \<Longrightarrow>
   handleScan e body d = (c, d, [])"
  by (simp add: handleScan_wellFormed)

lemma passesGuard_iff:
  assumes "wellFormed body"
  shows "passesGuard e body d qr \<longleftrightarrow>
     (b_recheck body = JBool True
      \<or> sameDayGuard e d (r_student_id qr) (scanTypeOf body) (os_timezone (getOrgSettings e d)) = None)"
proof -
  from assms have ty: "scanTypeOf body \<in> set [''CHECK_IN'', ''CHECK_OUT'']"
    by (simp add: wellFormed_def)
  show ?thesis
    unfolding passesGuard_def sameDayGuard_None_iff [OF ty] by (simp add: list_all_iff)
qed

lemma handleScan_recorded:
  assumes "wellFormed body" "resolveQr d (prepareValue e (b_qrCode body)) = Some qr"
    "r_status qr = ''ACTIVE''" "passesGuard e body d qr"
  shows "handleScan e body d =
     (if isDuplicateFor e body d qr
      then (DuplicateOk (recordedScan e body d qr) (b_headcountOnly body = JBool True),
            insertScanEvent (recordedScan e body d qr) d, [])
      else if \<not> smsAllowedFor e body d
                \<or> guardiansOf (insertScanEvent (recordedScan e body d qr) d) (r_student_id qr) = []
      then (NoSmsOk (recordedScan e body d qr) (smsAllowedFor e body d)
              (b_headcountOnly body = JBool True),
            insertScanEvent (recordedScan e body d qr) d, [])
      else notifyGuardians e (insertScanEvent (recordedScan e body d qr) d) qr (scanTypeOf body)
             (getOrgSettings e d) (b_messageOverride body) (recordedScan e body d qr)
             (guardiansOf (insertScanEvent (recordedScan e body d qr) d) (r_student_id qr))
             (smsAllowedFor e body d) (b_headcountOnly body = JBool True))"
proof -
  from assms(1,4) have g: "b_recheck body \<noteq> JBool True \<Longrightarrow>
      sameDayGuard e d (r_student_id qr) (scanTypeOf body) (os_timezone (getOrgSettings e d)) = None"
    by (simp add: passesGuard_iff)
  show ?thesis
    unfolding handleScan_wellFormed [OF assms(1)] using assms(2,3) g by simp
qed

lemma ex_wellFormed: "wellFormed exBody"
  by (simp add: wellFormed_def exBody_def exToken_def scanTypeOf_def toUpperCase_def upperChar_def)

lemma ex_scanType: "scanTypeOf exBody = ''CHECK_IN''"
  by (simp add: exBody_def exToken_def scanTypeOf_def toUpperCase_def upperChar_def)

lemma notify_fst: "\<exists>b. fst (notifyGuardians e d qr ty org ov scan gRows a h) = SentOk b"
  by (simp add: notifyGuardians_def Let_def split: prod.splits)

lemma notify_status: "httpStatus (fst (notifyGuardians e d qr ty org ov scan gRows a h)) = 200"
  using notify_fst [of e d qr ty org ov scan gRows a h] by auto

lemma handleScan_recorded_status:
  assumes "wellFormed body" "resolveQr d (prepareValue e (b_qrCode body)) = Some qr"
    "r_status qr = ''ACTIVE''" "passesGuard e body d qr"
  shows "httpStatus (fst (handleScan e body d)) = 200"
  unfolding handleScan_recorded [OF assms] by (simp add: notify_status)

lemma recipientsLoop_eq:
  "recipientsLoop i msgs gs (d, det)
   = (d\<lparr>message_recipient := message_recipient d @ map (recipientRow i msgs) gs\<rparr>,
      det @ map (recipientDetail msgs) gs)"
  by (induction gs arbitrary: d det) simp_all

lemma notifyGuardians_effect:
  assumes "gRows \<noteq> []"
  shows "\<exists>b. notifyGuardians e d qr ty org ov scan gRows a h =
     (SentOk b,
      d\<lparr>message_log := message_log d @
            [\<lparr>ml_id = message_log_seq d + 1, ml_student_id = r_student_id qr,
              ml_trigger_type = ''SCAN'', ml_scan_event_id = se_id scan,
              ml_template_key = (if hasOverride ov then None else Some ty),
              ml_body_rendered = composeBody e d qr ty org ov,
              ml_created_by = userIdOrNull e, ml_created_at = dbNow e\<rparr>],
         message_log_seq := message_log_seq d + 1,
         message_recipient := message_recipient d @
            map (recipientRow (message_log_seq d + 1)
                   (gatewayMessages e (map (\<lambda>g. \<lparr>i_to = g_phone_e164 g,
                                                   i_body = composeBody e d qr ty org ov\<rparr>) gRows)))
                gRows\<rparr>,
      [map (\<lambda>g. \<lparr>i_to = g_phone_e164 g, i_body = composeBody e d qr ty org ov\<rparr>) gRows])
     \<and> sb_recipients b = map g_phone_e164 gRows \<and> sb_scan b = scan
     \<and> sb_messageLogId b = message_log_seq d + 1
     \<and> sb_sent b = length (gatewayMessages e (map (\<lambda>g. \<lparr>i_to = g_phone_e164 g,
                                                   i_body = composeBody e d qr ty org ov\<rparr>) gRows))"
  using assms
  by (simp add: notifyGuardians_def Let_def recipientsLoop_eq sendSmsMany_def gatewayMessages_def
      split: prod.splits)

lemma guardiansOf_insertScanEvent [simp]:
  "guardiansOf (insertScanEvent scan d) sid = guardiansOf d sid"
  by (simp add: guardiansOf_def insertScanEvent_def)

lemma set_guardiansOf:
  "set (guardiansOf d sid)
   = {g \<in> set (guardian d). g_active g \<and> g_phone_valid g
        \<and> (\<exists>sg\<in>set (student_guardian d). sg_student_id sg = sid \<and> sg_guardian_id sg = g_id g)}"
  apply (auto simp: guardiansOf_def image_iff)
  apply blast
  done

lemma find_Some_mem: "List.find P xs = Some x \<Longrightarrow> x \<in> set xs \<and> P x"
  by (induction xs) (auto split: if_splits)

lemma resolveQr_None_iff:
  "resolveQr d tok = None \<longleftrightarrow>
     \<not> (\<exists>q\<in>set (qr_code d). \<exists>s\<in>set (student d).
           st_id s = qr_student_id q \<and> Some (qr_token q) = tok \<and> qr_active q)"
proof -
  have "resolveQr d tok = None \<longleftrightarrow>
        List.find (\<lambda>(q, s). st_id s = qr_student_id q \<and> Some (qr_token q) = tok \<and> qr_active q)
          (List.product (qr_code d) (student d)) = None"
    by (simp add: resolveQr_def split: option.splits)
  also have "\<dots> \<longleftrightarrow> \<not> (\<exists>q\<in>set (qr_code d). \<exists>s\<in>set (student d).
           st_id s = qr_student_id q \<and> Some (qr_token q) = tok \<and> qr_active q)"
    unfolding find_None_iff by auto
  finally show ?thesis .
qed

lemma resolveQr_Some:
  assumes "resolveQr d tok = Some qr"
  shows "\<exists>q\<in>set (qr_code d). \<exists>s\<in>set (student d).
           st_id s = qr_student_id q \<and> Some (qr_token q) = tok \<and> qr_active q
           \<and> r_qr_id qr = qr_id q \<and> r_student_id qr = qr_student_id q
           \<and> r_status qr = st_status s"
proof -
  from assms obtain q s where
    f: "List.find (\<lambda>(q, s). st_id s = qr_student_id q \<and> Some (qr_token q) = tok \<and> qr_active q)
          (List.product (qr_code d) (student d)) = Some (q, s)"
    and qr: "qr = \<lparr>r_qr_id = qr_id q, r_student_id = qr_student_id q,
                   r_first_name = st_first_name s, r_last_name = st_last_name s,
                   r_status = st_status s\<rparr>"
    by (auto simp: resolveQr_def split: option.splits)
  from find_Some_mem [OF f] qr show ?thesis by auto
qed

text \<open>
  Claim C3, as amended. For a well-formed request (a \<open>qrCode\<close> and a type that is a
  check-in or a check-out): when no active \<open>qr_code\<close> row has the token the response is
  404, and when the student of the matching row is not active it is 400. A request that
  fails the validation of its body is answered 400 before any lookup; where the
  conversion of the type to a string throws, the error handler answers, also before any
  lookup. Whenever the response is 400, 404 or 500 the database is unchanged and nothing
  is sent, and any other response means that an active row with the token and an active
  student of that row exist.
\<close>

theorem handleScan_qr_resolution:
  "(wellFormed body
      \<and> \<not> (\<exists>q\<in>set (qr_code d). Some (qr_token q) = prepareValue e (b_qrCode body) \<and> qr_active q)
      \<longrightarrow> handleScan e body d = (NotFound ''QR code not found or inactive'', d, []))
   \<and> (\<forall>qr. wellFormed body \<and> resolveQr d (prepareValue e (b_qrCode body)) = Some qr
            \<and> r_status qr \<noteq> ''ACTIVE''
      \<longrightarrow> handleScan e body d = (BadRequest ''Student is inactive'', d, []))
   \<and> (\<not> wellFormed body \<and> \<not> throwsOnType body
      \<longrightarrow> (\<exists>m. handleScan e body d = (BadRequest m, d, [])))
   \<and> (throwsOnType body \<longrightarrow> handleScan e body d = (ServerError, d, []))
   \<and> (httpStatus (fst (handleScan e body d)) \<in> {400, 404, 500}
      \<longrightarrow> snd (handleScan e body d) = (d, []))
   \<and> (httpStatus (fst (handleScan e body d)) \<notin> {400, 404, 500} \<longrightarrow>
        (\<exists>q\<in>set (qr_code d). \<exists>s\<in>set (student d).
            Some (qr_token q) = prepareValue e (b_qrCode body) \<and> qr_active q
            \<and> st_id s = qr_student_id q \<and> st_status s = ''ACTIVE''))"
proof -
  let ?tok = "prepareValue e (b_qrCode body)"
  let ?r = "handleScan e body d"
  have c1: "handleScan e body d = (NotFound ''QR code not found or inactive'', d, [])"
    if "wellFormed body" "\<not> (\<exists>q\<in>set (qr_code d). Some (qr_token q) = ?tok \<and> qr_active q)"
  proof -
    from that(2) have "resolveQr d ?tok = None" by (auto simp: resolveQr_None_iff)
    with that(1) show ?thesis by (rule handleScan_unresolved)
  qed
  have c2: "handleScan e body d = (BadRequest ''Student is inactive'', d, [])"
    if "wellFormed body \<and> resolveQr d ?tok = Some qr \<and> r_status qr \<noteq> ''ACTIVE''" for qr
    using that handleScan_inactive by blast
  have c3: "\<not> wellFormed body \<Longrightarrow> \<not> throwsOnType body
            \<Longrightarrow> \<exists>m. handleScan e body d = (BadRequest m, d, [])"
    by (rule handleScan_early)
  have c3': "throwsOnType body \<Longrightarrow> handleScan e body d = (ServerError, d, [])"
    by (rule handleScan_throws)
  have cases: "(httpStatus (fst ?r) \<in> {400, 404, 500} \<and> snd ?r = (d, []))
      \<or> (httpStatus (fst ?r) \<notin> {400, 404, 500}
          \<and> (\<exists>qr. resolveQr d ?tok = Some qr \<and> r_status qr = ''ACTIVE''))"
  proof (cases "wellFormed body")
    case False
    show ?thesis
    proof (cases "throwsOnType body")
      case True
      from c3' [OF this] show ?thesis by simp
    next
      case nt: False
      from c3 [OF False nt] show ?thesis by auto
    qed
  next
    case wf: True
    show ?thesis
    proof (cases "resolveQr d ?tok")
      case None
      from handleScan_unresolved [OF wf None] show ?thesis by simp
    next
      case (Some qr)
      show ?thesis
      proof (cases "r_status qr = ''ACTIVE''")
        case False
        from handleScan_inactive [OF wf Some False] show ?thesis by simp
      next
        case act: True
        show ?thesis
        proof (cases "passesGuard e body d qr")
          case True
          from handleScan_recorded_status [OF wf Some act True] Some act show ?thesis by simp
        next
          case False
          then obtain c where re: "b_recheck body \<noteq> JBool True"
            and g: "sameDayGuard e d (r_student_id qr) (scanTypeOf body)
                     (os_timezone (getOrgSettings e d)) = Some c"
            by (auto simp: passesGuard_iff [OF wf])
          from wf have ty: "scanTypeOf body \<in> set [''CHECK_IN'', ''CHECK_OUT'']"
            by (simp add: wellFormed_def)
          from sameDayGuard_Some [OF ty g] obtain err at where "c = Conflict err at" by blast
          with handleScan_conflict [OF wf Some act re g] Some act show ?thesis by simp
        qed
      qed
    qed
  qed
  have c4: "httpStatus (fst ?r) \<in> {400, 404, 500} \<longrightarrow> snd ?r = (d, [])"
    using cases by blast
  have c5: "httpStatus (fst ?r) \<notin> {400, 404, 500} \<longrightarrow>
        (\<exists>q\<in>set (qr_code d). \<exists>s\<in>set (student d).
            Some (qr_token q) = ?tok \<and> qr_active q \<and> st_id s = qr_student_id q
            \<and> st_status s = ''ACTIVE'')"
  proof
    assume "httpStatus (fst ?r) \<notin> {400, 404, 500}"
    with cases obtain qr where "resolveQr d ?tok = Some qr" "r_status qr = ''ACTIVE''" by blast
    with resolveQr_Some [of d ?tok qr] show "\<exists>q\<in>set (qr_code d). \<exists>s\<in>set (student d).
            Some (qr_token q) = ?tok \<and> qr_active q \<and> st_id s = qr_student_id q
            \<and> st_status s = ''ACTIVE''"
      by metis
  qed
  from c1 c2 c3 c3' c4 c5 show ?thesis by blast
qed

lemma notifyGuardians_frame:
  assumes "gRows \<noteq> []"
  shows "scan_event (fst (snd (notifyGuardians e d qr ty org ov scan gRows a h))) = scan_event d
       \<and> message_recipient (fst (snd (notifyGuardians e d qr ty org ov scan gRows a h)))
         = message_recipient d @
            map (recipientRow (message_log_seq d + 1)
                   (gatewayMessages e (map (\<lambda>g. \<lparr>i_to = g_phone_e164 g,
                                                   i_body = composeBody e d qr ty org ov\<rparr>) gRows)))
                gRows
       \<and> respRecipients (fst (notifyGuardians e d qr ty org ov scan gRows a h))
         = Some (map g_phone_e164 gRows)"
proof -
  from notifyGuardians_effect [OF assms, of e d qr ty org ov scan a h]
  obtain b d' c where "notifyGuardians e d qr ty org ov scan gRows a h = (SentOk b, d', c)"
    and "scan_event d' = scan_event d"
    and "message_recipient d' = message_recipient d @
            map (recipientRow (message_log_seq d + 1)
                   (gatewayMessages e (map (\<lambda>g. \<lparr>i_to = g_phone_e164 g,
                                                   i_body = composeBody e d qr ty org ov\<rparr>) gRows)))
                gRows"
    and "sb_recipients b = map g_phone_e164 gRows"
    by fastforce
  then show ?thesis by simp
qed

lemma composeBody_insertScanEvent [simp]:
  "composeBody e (insertScanEvent scan d) qr ty org ov = composeBody e d qr ty org ov"
  by (simp add: composeBody_def insertScanEvent_def)

lemma insertScanEvent_fields [simp]:
  "message_log (insertScanEvent scan d) = message_log d"
  "message_recipient (insertScanEvent scan d) = message_recipient d"
  "message_log_seq (insertScanEvent scan d) = message_log_seq d"
  "scan_event (insertScanEvent scan d) = scan_event d @ [scan]"
  by (simp_all add: insertScanEvent_def)

text \<open>
  Claim C1, as amended. A request that is well formed, resolves to an active student, is
  not a re-check and passes the same-day guard (no scan of that student and type on
  today's date in the organisation's zone), and whose student's latest scan of the type is
  within two minutes of now, is answered 200 with \<open>sent = 0\<close> and no recipients; one
  scan event with \<open>was_duplicate = true\<close> is added; the message tables are unchanged and
  the gateway is not called.
\<close>

theorem handleScan_duplicate_suppressed:
  assumes "wellFormed body"
    and "resolveQr d (prepareValue e (b_qrCode body)) = Some qr"
    and "r_status qr = ''ACTIVE''"
    and "b_recheck body \<noteq> JBool True"
    and "\<forall>r\<in>set (scan_event d).
           \<not> sameDayScan e (os_timezone (getOrgSettings e d)) (r_student_id qr) (scanTypeOf body) r"
    and "latestScan (filter (\<lambda>r. se_student_id r = r_student_id qr \<and> se_type r = scanTypeOf body)
                       (scan_event d)) = Some lastScan"
    and "withinMinutes (jsNow e) (se_scanned_at lastScan) 2"
  shows "\<exists>scan. handleScan e body d
                  = (DuplicateOk scan (b_headcountOnly body = JBool True),
                     d\<lparr>scan_event := scan_event d @ [scan], scan_event_seq := se_id scan\<rparr>, [])
           \<and> se_was_duplicate scan = Some True
           \<and> se_student_id scan = r_student_id qr \<and> se_type scan = scanTypeOf body
           \<and> respSent (fst (handleScan e body d)) = Some 0
           \<and> respRecipients (fst (handleScan e body d)) = Some []
           \<and> message_log (fst (snd (handleScan e body d))) = message_log d
           \<and> message_recipient (fst (snd (handleScan e body d))) = message_recipient d
           \<and> snd (snd (handleScan e body d)) = []"
proof -
  have pg: "passesGuard e body d qr"
    using assms(5) by (simp add: passesGuard_def list_all_iff)
  have dup: "isDuplicateFor e body d qr"
    using assms(4,6,7) by (simp add: isDuplicateFor_def isDuplicateScan_def)
  define scan where "scan = recordedScan e body d qr"
  have "handleScan e body d
        = (DuplicateOk scan (b_headcountOnly body = JBool True), insertScanEvent scan d, [])"
    unfolding scan_def handleScan_recorded [OF assms(1,2,3) pg] using dup by simp
  moreover have "se_was_duplicate scan = Some True" "se_student_id scan = r_student_id qr"
    "se_type scan = scanTypeOf body"
    using dup by (simp_all add: scan_def recordedScan_def newScanEvent_def)
  ultimately show ?thesis
    by (intro exI [of _ scan]) (simp add: insertScanEvent_def)
qed

text \<open>
  Claim C2, as amended. For a well-formed request that resolves to an active student: when
  it is not a re-check and a scan of that student and type exists on today's date in the
  organisation's zone, the response is 409 with the error of the type and the formatted
  time of the latest such scan, and the database is unchanged and nothing is sent; when it is a
  re-check, the guard is skipped, the response is 200 and one scan event marked as a
  re-check is added.
\<close>

theorem handleScan_same_day_guard:
  assumes "wellFormed body"
    and "resolveQr d (prepareValue e (b_qrCode body)) = Some qr"
    and "r_status qr = ''ACTIVE''"
  shows "(b_recheck body \<noteq> JBool True
          \<and> (\<exists>r\<in>set (scan_event d).
                sameDayScan e (os_timezone (getOrgSettings e d)) (r_student_id qr) (scanTypeOf body) r)
          \<longrightarrow> (\<exists>earlier\<in>set (scan_event d).
                 sameDayScan e (os_timezone (getOrgSettings e d)) (r_student_id qr) (scanTypeOf body) earlier
                 \<and> (\<forall>r\<in>set (scan_event d).
                       sameDayScan e (os_timezone (getOrgSettings e d)) (r_student_id qr)
                         (scanTypeOf body) r
                       \<longrightarrow> se_scanned_at r \<le> se_scanned_at earlier)
                 \<and> handleScan e body d
                   = (Conflict (if scanTypeOf body = ''CHECK_IN'' then ''already_checked_in_today''
                                else ''already_checked_out_today'')
                        (formatDateTimeTZ e (se_scanned_at earlier) (os_timezone (getOrgSettings e d))),
                      d, [])
                 \<and> httpStatus (fst (handleScan e body d)) = 409))
       \<and> (b_recheck body = JBool True
          \<longrightarrow> httpStatus (fst (handleScan e body d)) = 200
              \<and> (\<exists>scan. scan_event (fst (snd (handleScan e body d))) = scan_event d @ [scan]
                    \<and> se_student_id scan = r_student_id qr \<and> se_type scan = scanTypeOf body
                    \<and> se_was_duplicate scan = Some False
                    \<and> map_of (se_meta scan) ''recheck'' = Some True))"
proof -
  let ?tz = "os_timezone (getOrgSettings e d)"
  let ?sid = "r_student_id qr"
  let ?ty = "scanTypeOf body"
  from assms(1) have ty: "?ty \<in> set [''CHECK_IN'', ''CHECK_OUT'']"
    by (simp add: wellFormed_def)
  have a: "\<exists>earlier\<in>set (scan_event d). sameDayScan e ?tz ?sid ?ty earlier
             \<and> (\<forall>r\<in>set (scan_event d). sameDayScan e ?tz ?sid ?ty r
                   \<longrightarrow> se_scanned_at r \<le> se_scanned_at earlier)
             \<and> handleScan e body d
               = (Conflict (if ?ty = ''CHECK_IN'' then ''already_checked_in_today''
                            else ''already_checked_out_today'')
                    (formatDateTimeTZ e (se_scanned_at earlier) ?tz), d, [])
             \<and> httpStatus (fst (handleScan e body d)) = 409"
    if re: "b_recheck body \<noteq> JBool True"
      and ex: "\<exists>r\<in>set (scan_event d). sameDayScan e ?tz ?sid ?ty r"
  proof -
    from ex have "sameDayGuard e d ?sid ?ty ?tz \<noteq> None"
      by (simp add: sameDayGuard_None_iff [OF ty])
    then obtain c where c: "sameDayGuard e d ?sid ?ty ?tz = Some c" by blast
    from sameDayGuard_Some [OF ty c] obtain r where
      r: "getTodayOfType e d ?sid ?ty ?tz = Some r"
      and cc: "c = Conflict (if ?ty = ''CHECK_IN'' then ''already_checked_in_today''
                             else ''already_checked_out_today'')
                     (formatDateTimeTZ e (se_scanned_at r) ?tz)"
      by blast
    from getTodayOfType_Some [OF r] have m: "r \<in> set (scan_event d)" "sameDayScan e ?tz ?sid ?ty r"
      "\<forall>x\<in>set (scan_event d). sameDayScan e ?tz ?sid ?ty x \<longrightarrow> se_scanned_at x \<le> se_scanned_at r"
      by auto
    from handleScan_conflict [OF assms re c] cc
    have "handleScan e body d
          = (Conflict (if ?ty = ''CHECK_IN'' then ''already_checked_in_today''
                       else ''already_checked_out_today'')
               (formatDateTimeTZ e (se_scanned_at r) ?tz), d, [])"
      by simp
    with m show ?thesis by (intro bexI [of _ r]) simp_all
  qed
  have b: "httpStatus (fst (handleScan e body d)) = 200
           \<and> (\<exists>scan. scan_event (fst (snd (handleScan e body d))) = scan_event d @ [scan]
                 \<and> se_student_id scan = ?sid \<and> se_type scan = ?ty
                 \<and> se_was_duplicate scan = Some False
                 \<and> map_of (se_meta scan) ''recheck'' = Some True)"
    if re: "b_recheck body = JBool True"
  proof -
    have pg: "passesGuard e body d qr" using re by (simp add: passesGuard_def)
    have nd: "\<not> isDuplicateFor e body d qr" using re by (simp add: isDuplicateFor_def)
    define scan where "scan = recordedScan e body d qr"
    define d1 where "d1 = insertScanEvent scan d"
    define gRows where "gRows = guardiansOf d1 ?sid"
    have st: "httpStatus (fst (handleScan e body d)) = 200"
      by (rule handleScan_recorded_status [OF assms pg])
    have hs: "handleScan e body d =
       (if \<not> smsAllowedFor e body d \<or> gRows = []
        then (NoSmsOk scan (smsAllowedFor e body d) (b_headcountOnly body = JBool True), d1, [])
        else notifyGuardians e d1 qr ?ty (getOrgSettings e d) (b_messageOverride body)
               scan gRows (smsAllowedFor e body d) (b_headcountOnly body = JBool True))"
      unfolding scan_def d1_def gRows_def handleScan_recorded [OF assms pg] using nd by simp
    have "scan_event (fst (snd (handleScan e body d))) = scan_event d1"
    proof (cases "\<not> smsAllowedFor e body d \<or> gRows = []")
      case True
      with hs show ?thesis by auto
    next
      case False
      then have "gRows \<noteq> []" by simp
      from notifyGuardians_frame [OF this] False hs show ?thesis by simp
    qed
    then have se: "scan_event (fst (snd (handleScan e body d))) = scan_event d @ [scan]"
      by (simp add: d1_def)
    have "se_student_id scan = ?sid" "se_type scan = ?ty" "se_was_duplicate scan = Some False"
      "map_of (se_meta scan) ''recheck'' = Some True"
      using re nd by (simp_all add: scan_def recordedScan_def newScanEvent_def)
    with st se show ?thesis by blast
  qed
  from a b show ?thesis by blast
qed

text \<open>
  Claim C6. A request with \<open>headcountOnly = true\<close> that is well formed, resolves to an
  active student, passes the same-day guard and is not a duplicate adds exactly one scan
  event, whose meta has \<open>headcountOnly = true\<close>; no message log or recipient row is
  added and the gateway is not called, whatever the SMS policy says.
\<close>

theorem handleScan_headcount_only:
  assumes "wellFormed body"
    and "resolveQr d (prepareValue e (b_qrCode body)) = Some qr"
    and "r_status qr = ''ACTIVE''"
    and "passesGuard e body d qr"
    and "\<not> isDuplicateFor e body d qr"
    and "b_headcountOnly body = JBool True"
  shows "handleScan e body d
           = (NoSmsOk (recordedScan e body d qr) False True,
              d\<lparr>scan_event := scan_event d @ [recordedScan e body d qr],
                scan_event_seq := se_id (recordedScan e body d qr)\<rparr>, [])
       \<and> map_of (se_meta (recordedScan e body d qr)) ''headcountOnly'' = Some True
       \<and> se_student_id (recordedScan e body d qr) = r_student_id qr
       \<and> se_type (recordedScan e body d qr) = scanTypeOf body
       \<and> message_log (fst (snd (handleScan e body d))) = message_log d
       \<and> message_recipient (fst (snd (handleScan e body d))) = message_recipient d
       \<and> length (scan_event (fst (snd (handleScan e body d)))) = length (scan_event d) + 1
       \<and> snd (snd (handleScan e body d)) = []"
proof -
  have na: "\<not> smsAllowedFor e body d" using assms(6) by (simp add: smsAllowedFor_def)
  have hs: "handleScan e body d
        = (NoSmsOk (recordedScan e body d qr) False True,
           insertScanEvent (recordedScan e body d qr) d, [])"
    unfolding handleScan_recorded [OF assms(1,2,3,4)] using assms(5,6) na by simp
  have meta: "map_of (se_meta (recordedScan e body d qr)) ''headcountOnly'' = Some True"
    using assms(6) by (simp add: recordedScan_def newScanEvent_def)
  have f: "se_student_id (recordedScan e body d qr) = r_student_id qr"
    "se_type (recordedScan e body d qr) = scanTypeOf body"
    by (simp_all add: recordedScan_def newScanEvent_def)
  from hs meta f show ?thesis by (simp add: insertScanEvent_def)
qed

lemma distinct_all_eq_length:
  "distinct xs \<Longrightarrow> \<forall>x\<in>set xs. x = k \<Longrightarrow> length xs \<le> 1"
  by (cases xs; cases "tl xs") auto

lemma links_per_guardian:
  assumes "distinct (map (\<lambda>sg. (sg_student_id sg, sg_guardian_id sg)) sgs)"
  shows "length (filter (\<lambda>sg. sg_guardian_id sg = gid \<and> sg_student_id sg = sid) sgs) \<le> 1"
proof -
  let ?f = "filter (\<lambda>sg. sg_guardian_id sg = gid \<and> sg_student_id sg = sid) sgs"
  have "distinct (map (\<lambda>sg. (sg_student_id sg, sg_guardian_id sg)) ?f)"
    using assms by (rule distinct_map_filter)
  moreover have "\<forall>x\<in>set (map (\<lambda>sg. (sg_student_id sg, sg_guardian_id sg)) ?f). x = (sid, gid)"
    by auto
  ultimately have "length (map (\<lambda>sg. (sg_student_id sg, sg_guardian_id sg)) ?f) \<le> 1"
    by (rule distinct_all_eq_length)
  then show ?thesis by simp
qed

lemma guardian_join_one:
  "map fst (filter (\<lambda>(g, sg). Q g sg) (map (Pair g0) sgs))
   = replicate (length (filter (Q g0) sgs)) g0"
  by (induction sgs) auto

lemma guardian_join_distinct:
  assumes "distinct (map g_id gs)"
    and "distinct (map (\<lambda>sg. (sg_student_id sg, sg_guardian_id sg)) sgs)"
  shows "distinct (map g_id (map fst (filter
           (\<lambda>(g, sg). sg_guardian_id sg = g_id g \<and> sg_student_id sg = sid
                       \<and> g_active g \<and> g_phone_valid g)
           (List.product gs sgs))))
       \<and> set (map fst (filter
           (\<lambda>(g, sg). sg_guardian_id sg = g_id g \<and> sg_student_id sg = sid
                       \<and> g_active g \<and> g_phone_valid g)
           (List.product gs sgs))) \<subseteq> set gs"
  using assms(1)
proof (induction gs)
  case Nil
  then show ?case by simp
next
  case (Cons g gs)
  let ?Q = "\<lambda>g sg. sg_guardian_id sg = g_id g \<and> sg_student_id sg = sid
                     \<and> g_active g \<and> g_phone_valid g"
  let ?rest = "map fst (filter (\<lambda>(g, sg). ?Q g sg) (List.product gs sgs))"
  from Cons have ih: "distinct (map g_id ?rest)" "set ?rest \<subseteq> set gs" by auto
  have sub: "set (filter (?Q g) sgs)
             \<subseteq> set (filter (\<lambda>sg. sg_guardian_id sg = g_id g \<and> sg_student_id sg = sid) sgs)"
    by auto
  have "length (filter (?Q g) sgs)
        \<le> length (filter (\<lambda>sg. sg_guardian_id sg = g_id g \<and> sg_student_id sg = sid) sgs)"
  proof -
    have "filter (?Q g) sgs
          = filter (\<lambda>sg. g_active g \<and> g_phone_valid g)
              (filter (\<lambda>sg. sg_guardian_id sg = g_id g \<and> sg_student_id sg = sid) sgs)"
      by (simp add: conj_commute conj_left_commute cong: conj_cong)
    then show ?thesis by (metis length_filter_le)
  qed
  with links_per_guardian [OF assms(2), of "g_id g" sid]
  have n: "length (filter (?Q g) sgs) \<le> 1" by linarith
  define rest where "rest = ?rest"
  define k where "k = length (filter (?Q g) sgs)"
  have ih': "distinct (map g_id rest)" "set rest \<subseteq> set gs"
    using ih by (simp_all add: rest_def)
  have k1: "k \<le> 1" using n by (simp add: k_def)
  have fresh: "g_id g \<notin> set (map g_id rest)"
    using Cons.prems ih'(2) by auto
  have split: "map fst (filter (\<lambda>(g, sg). ?Q g sg) (List.product (g # gs) sgs))
        = replicate k g @ rest"
    by (simp add: guardian_join_one rest_def k_def)
  have d: "distinct (map g_id (replicate k g))"
    using k1 by (cases k) auto
  have s: "set (map g_id (replicate k g)) \<subseteq> {g_id g}" by auto
  have "distinct (map g_id (replicate k g @ rest))"
    using d ih'(1) fresh s by (auto simp del: map_replicate)
  moreover have "set (replicate k g @ rest) \<subseteq> set (g # gs)"
    using ih'(2) by auto
  ultimately show ?case unfolding split by blast
qed

lemma guardiansOf_distinct:
  assumes "distinct (map g_id (guardian d))"
    and "distinct (map (\<lambda>sg. (sg_student_id sg, sg_guardian_id sg)) (student_guardian d))"
  shows "distinct (map g_id (guardiansOf d sid))"
  using guardian_join_distinct [OF assms, of sid] by (simp add: guardiansOf_def)

lemma recipientRow_fields:
  "mr_guardian_id (recipientRow i msgs g) = g_id g"
  "mr_phone_e164 (recipientRow i msgs g) = g_phone_e164 g"
  "mr_message_log_id (recipientRow i msgs g) = i"
  "mr_gateway_status (recipientRow i msgs g) = gatewayStatusFor msgs g"
  "mr_status (recipientRow i msgs g) = ''SENT'' \<longleftrightarrow> gatewayStatusFor msgs g = ''SUCCESS''"
  "mr_status (recipientRow i msgs g) \<noteq> ''SENT'' \<longrightarrow> mr_status (recipientRow i msgs g) = ''FAILED''"
  by (simp_all add: recipientRow_def statusNorm_def)

lemma find_nth_distinct:
  assumes "distinct (map f xs)" "k < length xs"
  shows "List.find (\<lambda>x. f x = f (xs ! k)) xs = Some (xs ! k)"
proof -
  have "\<forall>j<k. f (xs ! j) \<noteq> f (xs ! k)"
  proof (intro allI impI)
    fix j assume "j < k"
    with assms(2) have l: "j < length (map f xs)" "k < length (map f xs)" by simp_all
    from \<open>j < k\<close> have "j \<noteq> k" by simp
    with nth_eq_iff_index_eq [OF assms(1) l] have "map f xs ! j \<noteq> map f xs ! k" by simp
    with \<open>j < k\<close> assms(2) show "f (xs ! j) \<noteq> f (xs ! k)" by simp
  qed
  with assms(2) show ?thesis unfolding find_Some_iff by blast
qed

lemma gatewayStatusFor_own:
  assumes "distinct (map g_phone_e164 gRows)" "map m_to msgs = map g_phone_e164 gRows"
    "k < length gRows"
  shows "gatewayStatusFor msgs (gRows ! k) = orElse (m_status (msgs ! k)) ''UNKNOWN''"
proof -
  from assms(2) have len: "length msgs = length gRows" by (metis length_map)
  with assms(3) have k: "k < length msgs" by simp
  from assms(1,2) have d: "distinct (map m_to msgs)" by simp
  from assms(2) k assms(3) have to: "m_to (msgs ! k) = g_phone_e164 (gRows ! k)"
    by (metis nth_map)
  from find_nth_distinct [OF d k] to
  have "List.find (\<lambda>m. m_to m = g_phone_e164 (gRows ! k)) msgs = Some (msgs ! k)" by simp
  moreover from k have "msgs \<noteq> []" by auto
  ultimately show ?thesis by (simp add: gatewayStatusFor_def)
qed

lemma gatewayStatusFor_own_map:
  assumes "distinct (map g_phone_e164 gRows)" "map m_to msgs = map g_phone_e164 gRows"
  shows "map (gatewayStatusFor msgs) gRows = map (\<lambda>m. orElse (m_status m) ''UNKNOWN'') msgs"
proof -
  from assms(2) have len: "length msgs = length gRows" by (metis length_map)
  show ?thesis
    by (rule nth_equalityI) (simp_all add: len gatewayStatusFor_own [OF assms])
qed

lemma handleScan_recipient_rows:
  assumes "wellFormed body"
    and "resolveQr d (prepareValue e (b_qrCode body)) = Some qr"
    and "r_status qr = ''ACTIVE''"
    and "passesGuard e body d qr"
    and "\<not> isDuplicateFor e body d qr"
    and "smsAllowedFor e body d"
  shows "message_recipient (fst (snd (handleScan e body d)))
         = message_recipient d
           @ map (recipientRow (message_log_seq d + 1)
                    (gatewayMessages e
                       (map (\<lambda>g. \<lparr>i_to = g_phone_e164 g,
                                   i_body = composeBody e d qr (scanTypeOf body) (getOrgSettings e d)
                                              (b_messageOverride body)\<rparr>)
                            (guardiansOf d (r_student_id qr)))))
               (guardiansOf d (r_student_id qr))"
    and "snd (snd (handleScan e body d))
         = (if guardiansOf d (r_student_id qr) = [] then []
            else [map (\<lambda>g. \<lparr>i_to = g_phone_e164 g,
                             i_body = composeBody e d qr (scanTypeOf body) (getOrgSettings e d)
                                        (b_messageOverride body)\<rparr>)
                      (guardiansOf d (r_student_id qr))])"
proof -
  let ?sid = "r_student_id qr"
  define scan where "scan = recordedScan e body d qr"
  define d1 where "d1 = insertScanEvent scan d"
  define gRows where "gRows = guardiansOf d ?sid"
  have g1: "guardiansOf d1 ?sid = gRows" by (simp add: d1_def gRows_def)
  have hs: "handleScan e body d =
       (if gRows = []
        then (NoSmsOk scan True (b_headcountOnly body = JBool True), d1, [])
        else notifyGuardians e d1 qr (scanTypeOf body) (getOrgSettings e d) (b_messageOverride body)
               scan gRows True (b_headcountOnly body = JBool True))"
    unfolding handleScan_recorded [OF assms(1,2,3,4)]
    using assms(5,6) by (simp add: scan_def [symmetric] d1_def [symmetric] g1)
  show "message_recipient (fst (snd (handleScan e body d)))
         = message_recipient d
           @ map (recipientRow (message_log_seq d + 1)
                    (gatewayMessages e
                       (map (\<lambda>g. \<lparr>i_to = g_phone_e164 g,
                                   i_body = composeBody e d qr (scanTypeOf body) (getOrgSettings e d)
                                              (b_messageOverride body)\<rparr>)
                            (guardiansOf d (r_student_id qr)))))
               (guardiansOf d (r_student_id qr))"
  proof (cases "gRows = []")
    case True
    with hs show ?thesis by (simp add: d1_def gRows_def [symmetric])
  next
    case False
    from notifyGuardians_frame [OF False, of e d1 qr "scanTypeOf body" "getOrgSettings e d"
        "b_messageOverride body" scan True "b_headcountOnly body = JBool True"] hs False
    show ?thesis by (simp add: d1_def gRows_def [symmetric])
  qed
  show "snd (snd (handleScan e body d))
         = (if guardiansOf d (r_student_id qr) = [] then []
            else [map (\<lambda>g. \<lparr>i_to = g_phone_e164 g,
                             i_body = composeBody e d qr (scanTypeOf body) (getOrgSettings e d)
                                        (b_messageOverride body)\<rparr>)
                      (guardiansOf d (r_student_id qr))])"
  proof (cases "gRows = []")
    case True
    with hs show ?thesis by (simp add: gRows_def [symmetric])
  next
    case False
    from notifyGuardians_effect [OF False, of e d1 qr "scanTypeOf body" "getOrgSettings e d"
        "b_messageOverride body" scan True "b_headcountOnly body = JBool True"]
    obtain b d' where "notifyGuardians e d1 qr (scanTypeOf body) (getOrgSettings e d)
        (b_messageOverride body) scan gRows True (b_headcountOnly body = JBool True)
      = (SentOk b, d', [map (\<lambda>g. \<lparr>i_to = g_phone_e164 g,
             i_body = composeBody e d1 qr (scanTypeOf body) (getOrgSettings e d)
                        (b_messageOverride body)\<rparr>) gRows])"
      by blast
    with hs False show ?thesis by (simp add: d1_def gRows_def [symmetric])
  qed
qed


text \<open>
  Claim C4, as amended. For a scan that is recorded, is not a duplicate and for which SMS
  is allowed: the recipients are exactly the guardians linked to the student that are
  active and have a valid phone; the response lists their phones; one
  \<open>message_recipient\<close> row is added per recipient, for that guardian, and the gateway
  status that it records is the one found for the guardian's phone among the messages
  that the gateway returned for the call: the status of the first message to that phone,
  \<open>UNKNOWN\<close> when that message has no status or no message is to that phone, \<open>FAILED\<close>
  when there is no message at all. The stored status is \<open>SENT\<close> exactly when that
  gateway status is \<open>SUCCESS\<close> and \<open>FAILED\<close> otherwise. When the phones of the
  recipients are pairwise distinct and the gateway returns one message per recipient,
  in order and to the recipient's phone, the recorded gateway statuses are those of the
  recipients' own messages. With unique guardian ids and unique links no guardian occurs
  twice.
\<close>

theorem handleScan_recipients:
  assumes "wellFormed body"
    and "resolveQr d (prepareValue e (b_qrCode body)) = Some qr"
    and "r_status qr = ''ACTIVE''"
    and "passesGuard e body d qr"
    and "\<not> isDuplicateFor e body d qr"
    and "smsAllowedFor e body d"
  shows "set (guardiansOf d (r_student_id qr))
           = {g \<in> set (guardian d). g_active g \<and> g_phone_valid g
                \<and> (\<exists>sg\<in>set (student_guardian d).
                      sg_student_id sg = r_student_id qr \<and> sg_guardian_id sg = g_id g)}
       \<and> respRecipients (fst (handleScan e body d))
           = Some (map g_phone_e164 (guardiansOf d (r_student_id qr)))
       \<and> (\<exists>msgs. message_recipient (fst (snd (handleScan e body d)))
                   = message_recipient d
                     @ map (recipientRow (message_log_seq d + 1) msgs) (guardiansOf d (r_student_id qr))
                 \<and> msgs = gatewayMessages e
                        (map (\<lambda>g. \<lparr>i_to = g_phone_e164 g,
                                    i_body = composeBody e d qr (scanTypeOf body) (getOrgSettings e d)
                                               (b_messageOverride body)\<rparr>)
                             (guardiansOf d (r_student_id qr)))
                 \<and> (\<forall>g\<in>set (guardiansOf d (r_student_id qr)).
                       mr_guardian_id (recipientRow (message_log_seq d + 1) msgs g) = g_id g
                       \<and> mr_gateway_status (recipientRow (message_log_seq d + 1) msgs g)
                           = gatewayStatusFor msgs g
                       \<and> (mr_status (recipientRow (message_log_seq d + 1) msgs g) = ''SENT''
                            \<longleftrightarrow> gatewayStatusFor msgs g = ''SUCCESS'')
                       \<and> (gatewayStatusFor msgs g \<noteq> ''SUCCESS''
                            \<longrightarrow> mr_status (recipientRow (message_log_seq d + 1) msgs g) = ''FAILED''))
                 \<and> (distinct (map g_phone_e164 (guardiansOf d (r_student_id qr)))
                      \<and> map m_to msgs = map g_phone_e164 (guardiansOf d (r_student_id qr))
                    \<longrightarrow> map mr_gateway_status
                          (drop (length (message_recipient d))
                             (message_recipient (fst (snd (handleScan e body d)))))
                        = map (\<lambda>m. orElse (m_status m) ''UNKNOWN'') msgs))
       \<and> (distinct (map g_id (guardian d))
            \<and> distinct (map (\<lambda>sg. (sg_student_id sg, sg_guardian_id sg)) (student_guardian d))
          \<longrightarrow> distinct (map g_id (guardiansOf d (r_student_id qr))))"
proof -
  let ?sid = "r_student_id qr"
  define gRows where "gRows = guardiansOf d ?sid"
  define body_text where "body_text = composeBody e d qr (scanTypeOf body) (getOrgSettings e d)
                                               (b_messageOverride body)"
  define msgs where "msgs = gatewayMessages e
      (map (\<lambda>g. \<lparr>i_to = g_phone_e164 g, i_body = body_text\<rparr>) gRows)"
  have hs: "handleScan e body d =
       (if gRows = []
        then (NoSmsOk (recordedScan e body d qr) True (b_headcountOnly body = JBool True),
              insertScanEvent (recordedScan e body d qr) d, [])
        else notifyGuardians e (insertScanEvent (recordedScan e body d qr) d) qr (scanTypeOf body)
               (getOrgSettings e d) (b_messageOverride body)
               (recordedScan e body d qr) gRows True (b_headcountOnly body = JBool True))"
    unfolding handleScan_recorded [OF assms(1,2,3,4)]
    using assms(5,6) by (simp add: gRows_def)
  have rec: "respRecipients (fst (handleScan e body d)) = Some (map g_phone_e164 gRows)"
  proof (cases "gRows = []")
    case True
    with hs show ?thesis by simp
  next
    case False
    from notifyGuardians_frame [OF False] hs False show ?thesis by simp
  qed
  have rows: "message_recipient (fst (snd (handleScan e body d)))
               = message_recipient d @ map (recipientRow (message_log_seq d + 1) msgs) gRows"
    using handleScan_recipient_rows(1) [OF assms]
    by (simp add: msgs_def body_text_def gRows_def)
  have stored: "map mr_gateway_status
                  (drop (length (message_recipient d))
                     (message_recipient (fst (snd (handleScan e body d)))))
                = map (gatewayStatusFor msgs) gRows"
    unfolding rows by (simp add: recipientRow_fields comp_def)
  have own: "distinct (map g_phone_e164 gRows) \<and> map m_to msgs = map g_phone_e164 gRows
             \<longrightarrow> map mr_gateway_status
                   (drop (length (message_recipient d))
                      (message_recipient (fst (snd (handleScan e body d)))))
                 = map (\<lambda>m. orElse (m_status m) ''UNKNOWN'') msgs"
    unfolding stored using gatewayStatusFor_own_map by blast
  have c3: "\<exists>m. message_recipient (fst (snd (handleScan e body d)))
                   = message_recipient d @ map (recipientRow (message_log_seq d + 1) m) gRows
                 \<and> m = gatewayMessages e
                        (map (\<lambda>g. \<lparr>i_to = g_phone_e164 g, i_body = body_text\<rparr>) gRows)
                 \<and> (\<forall>g\<in>set gRows.
                       mr_guardian_id (recipientRow (message_log_seq d + 1) m g) = g_id g
                       \<and> mr_gateway_status (recipientRow (message_log_seq d + 1) m g)
                           = gatewayStatusFor m g
                       \<and> (mr_status (recipientRow (message_log_seq d + 1) m g) = ''SENT''
                            \<longleftrightarrow> gatewayStatusFor m g = ''SUCCESS'')
                       \<and> (gatewayStatusFor m g \<noteq> ''SUCCESS''
                            \<longrightarrow> mr_status (recipientRow (message_log_seq d + 1) m g) = ''FAILED''))
                 \<and> (distinct (map g_phone_e164 gRows) \<and> map m_to m = map g_phone_e164 gRows
                    \<longrightarrow> map mr_gateway_status
                          (drop (length (message_recipient d))
                             (message_recipient (fst (snd (handleScan e body d)))))
                        = map (\<lambda>m. orElse (m_status m) ''UNKNOWN'') m)"
    using rows own by (intro exI [of _ msgs]) (simp add: msgs_def recipientRow_fields)
  have c4: "distinct (map g_id (guardian d))
            \<and> distinct (map (\<lambda>sg. (sg_student_id sg, sg_guardian_id sg)) (student_guardian d))
          \<longrightarrow> distinct (map g_id gRows)"
    using guardiansOf_distinct by (simp add: gRows_def)
  from set_guardiansOf [of d ?sid] rec c3 c4 show ?thesis
    unfolding gRows_def body_text_def by blast
qed

lemma exEnv_fields:
  "jsNow exEnv = 1700006430000" "dbNow exEnv = 1700006430000"
  "localDate exEnv tz t = t div 86400000"
  "userId exEnv = Some 7" "env_APP_TZ exEnv = None" "env_CENTER_NAME exEnv = None"
  "env_QR_REPO_DIR exEnv = None" "randomUUID exEnv k = exToken2"
  "intlDate exEnv tz t = ''Wed, 15 Nov 2023''" "intlTime exEnv tz t = ''11:00 am AEDT''"
  "clickSend exEnv items
   = Some (map (\<lambda>i. \<lparr>m_to = i_to i, m_message_id = Some ''M1'',
                     m_status = Some (if i_to i = ''+61400000001'' then ''SUCCESS''
                                      else ''INVALID_RECIPIENT'')\<rparr>) items)"
  by (simp_all add: exEnv_def)

lemma exDbScanned_fields:
  "scan_event (exDbScanned t) = [exScanAt t]" "scan_event_seq (exDbScanned t) = 1"
  "qr_code (exDbScanned t) = qr_code exDb" "student (exDbScanned t) = student exDb"
  "guardian (exDbScanned t) = guardian exDb"
  "student_guardian (exDbScanned t) = student_guardian exDb"
  "message_template (exDbScanned t) = message_template exDb"
  "message_log (exDbScanned t) = message_log exDb"
  "message_recipient (exDbScanned t) = message_recipient exDb"
  "setting_center_profile (exDbScanned t) = None" "setting_sms_policy (exDbScanned t) = None"
  "message_log_seq (exDbScanned t) = message_log_seq exDb"
  by (simp_all add: exDbScanned_def exDb_def)

lemma exDb_fields:
  "scan_event exDb = []" "scan_event_seq exDb = 0" "message_log exDb = []"
  "message_recipient exDb = []" "message_log_seq exDb = 0"
  "setting_center_profile exDb = None" "setting_sms_policy exDb = None"
  "message_template exDb = []"
  by (simp_all add: exDb_def)

lemma exDbInactive_fields:
  "scan_event (exDbInactive t) = [exScanAt t]"
  "setting_center_profile (exDbInactive t) = None" "setting_sms_policy (exDbInactive t) = None"
  by (simp_all add: exDbInactive_def exDbScanned_def exDb_def)

lemma exScanAt_fields:
  "se_student_id (exScanAt t) = 1" "se_type (exScanAt t) = ''CHECK_IN''"
  "se_scanned_at (exScanAt t) = t"
  by (simp_all add: exScanAt_def)

lemma ex_settings:
  "getOrgSettings exEnv exDb
   = \<lparr>os_centerName = ''Kumon'', os_timezone = ''Australia/Hobart'',
      os_sendOnCheckIn = True, os_sendOnCheckOut = True\<rparr>"
  "getOrgSettings exEnv (exDbScanned t) = getOrgSettings exEnv exDb"
  "getOrgSettings exEnv (exDbInactive t) = getOrgSettings exEnv exDb"
  by (simp_all add: getOrgSettings_def exDb_fields exDbScanned_fields exDbInactive_fields
      exEnv_fields orElse_def)

lemma ex_resolve_scanned:
  "resolveQr (exDbScanned t) (prepareValue exEnv (b_qrCode exBody)) = Some exQr"
  "resolveQr exDb (prepareValue exEnv (b_qrCode exBody)) = Some exQr"
  by (simp_all add: resolveQr_def exDbScanned_def exDb_def exBody_def exToken_def exQr_def)

lemma ex_resolve_inactive:
  "resolveQr (exDbInactive t) (prepareValue exEnv (b_qrCode exBody)) = Some (exQr\<lparr>r_status := ''INACTIVE''\<rparr>)"
  by (simp add: resolveQr_def exDbInactive_def exDbScanned_def exDb_def exBody_def exToken_def exQr_def)

lemma ex_sameDay_today:
  "sameDayScan exEnv ''Australia/Hobart'' 1 ''CHECK_IN'' (exScanAt 1700006410000)"
  by (simp add: sameDayScan_def exScanAt_fields exEnv_fields)

lemma ex_sameDay_yesterday:
  "\<not> sameDayScan exEnv ''Australia/Hobart'' 1 ''CHECK_IN'' (exScanAt 1700006370000)"
  by (simp add: sameDayScan_def exScanAt_fields exEnv_fields)

lemma ex_dup:
  "isDuplicateScan exEnv (exDbScanned 1700006410000) 1 ''CHECK_IN''"
  "isDuplicateScan exEnv (exDbScanned 1700006370000) 1 ''CHECK_IN''"
  by (simp_all add: isDuplicateScan_def exDbScanned_fields exScanAt_fields exEnv_fields
      withinMinutes_def)

theorem handleScan_duplicate_suppressed_counterexample:
  "wellFormed exBody
   \<and> resolveQr (exDbScanned 1700006410000) (prepareValue exEnv (b_qrCode exBody)) = Some exQr
   \<and> r_status exQr = ''ACTIVE''
   \<and> b_recheck exBody \<noteq> JBool True
   \<and> isDuplicateScan exEnv (exDbScanned 1700006410000) (r_student_id exQr) (scanTypeOf exBody)
   \<and> handleScan exEnv exBody (exDbScanned 1700006410000)
     = (Conflict ''already_checked_in_today''
          (formatDateTimeTZ exEnv 1700006410000 ''Australia/Hobart''),
        exDbScanned 1700006410000, [])"
proof -
  have re: "b_recheck exBody \<noteq> JBool True" by (simp add: exBody_def)
  have act: "r_status exQr = ''ACTIVE''" by (simp add: exQr_def)
  have g: "sameDayGuard exEnv (exDbScanned 1700006410000) (r_student_id exQr) (scanTypeOf exBody)
             (os_timezone (getOrgSettings exEnv (exDbScanned 1700006410000)))
           = Some (Conflict ''already_checked_in_today''
                     (formatDateTimeTZ exEnv 1700006410000 ''Australia/Hobart''))"
    by (simp add: ex_settings ex_scanType sameDayGuard_def getTodayCheckIn_def
        getTodayOfType_def exDbScanned_fields exScanAt_fields exQr_def exEnv_fields)
  from handleScan_conflict [OF ex_wellFormed ex_resolve_scanned(1) act re g]
    ex_wellFormed ex_resolve_scanned(1) act re ex_dup(1)
  show ?thesis by (simp add: ex_scanType exQr_def)
qed

lemma ex_re: "b_recheck exBody \<noteq> JBool True" by (simp add: exBody_def)
lemma ex_act: "r_status exQr = ''ACTIVE''" by (simp add: exQr_def)
lemma ex_sid: "r_student_id exQr = 1" by (simp add: exQr_def)

theorem handleScan_duplicate_suppressed_witness:
  "wellFormed exBody
   \<and> passesGuard exEnv exBody (exDbScanned 1700006370000) exQr
   \<and> withinMinutes (jsNow exEnv) (se_scanned_at (exScanAt 1700006370000)) 2
   \<and> respSent (fst (handleScan exEnv exBody (exDbScanned 1700006370000))) = Some 0
   \<and> respRecipients (fst (handleScan exEnv exBody (exDbScanned 1700006370000))) = Some []
   \<and> message_log (fst (snd (handleScan exEnv exBody (exDbScanned 1700006370000)))) = []
   \<and> message_recipient (fst (snd (handleScan exEnv exBody (exDbScanned 1700006370000)))) = []
   \<and> snd (snd (handleScan exEnv exBody (exDbScanned 1700006370000))) = []"
proof -
  let ?d = "exDbScanned 1700006370000"
  have h5: "\<forall>r\<in>set (scan_event ?d).
           \<not> sameDayScan exEnv (os_timezone (getOrgSettings exEnv ?d)) (r_student_id exQr)
                (scanTypeOf exBody) r"
    using ex_sameDay_yesterday
    by (simp add: exDbScanned_fields ex_settings ex_sid ex_scanType)
  have h6: "latestScan (filter (\<lambda>r. se_student_id r = r_student_id exQr
                                    \<and> se_type r = scanTypeOf exBody) (scan_event ?d))
            = Some (exScanAt 1700006370000)"
    by (simp add: exDbScanned_fields exScanAt_fields ex_sid ex_scanType)
  have h7: "withinMinutes (jsNow exEnv) (se_scanned_at (exScanAt 1700006370000)) 2"
    by (simp add: withinMinutes_def exEnv_fields exScanAt_fields)
  have pg: "passesGuard exEnv exBody ?d exQr"
    using h5 by (simp add: passesGuard_def list_all_iff)
  from handleScan_duplicate_suppressed [OF ex_wellFormed ex_resolve_scanned(1) ex_act ex_re h5 h6 h7]
  obtain scan where "respSent (fst (handleScan exEnv exBody ?d)) = Some 0"
    "respRecipients (fst (handleScan exEnv exBody ?d)) = Some []"
    "message_log (fst (snd (handleScan exEnv exBody ?d))) = message_log ?d"
    "message_recipient (fst (snd (handleScan exEnv exBody ?d))) = message_recipient ?d"
    "snd (snd (handleScan exEnv exBody ?d)) = []"
    by blast
  with ex_wellFormed pg h7 show ?thesis by (simp add: exDbScanned_fields exDb_fields)
qed

theorem handleScan_same_day_guard_counterexample:
  "b_recheck exBody \<noteq> JBool True
   \<and> scan_event (exDbInactive 1700006410000) = [exScanAt 1700006410000]
   \<and> sameDayScan exEnv (os_timezone (getOrgSettings exEnv (exDbInactive 1700006410000))) 1
       (scanTypeOf exBody) (exScanAt 1700006410000)
   \<and> handleScan exEnv exBody (exDbInactive 1700006410000)
     = (BadRequest ''Student is inactive'', exDbInactive 1700006410000, [])
   \<and> httpStatus (fst (handleScan exEnv exBody (exDbInactive 1700006410000))) \<noteq> 409"
proof -
  have "r_status (exQr\<lparr>r_status := ''INACTIVE''\<rparr>) \<noteq> ''ACTIVE''" by simp
  from handleScan_inactive [OF ex_wellFormed ex_resolve_inactive this] ex_re ex_sameDay_today
  show ?thesis by (simp add: ex_settings ex_scanType exDbInactive_fields)
qed

theorem handleScan_same_day_guard_witness:
  "wellFormed exBody
   \<and> resolveQr (exDbScanned 1700006410000) (prepareValue exEnv (b_qrCode exBody)) = Some exQr
   \<and> r_status exQr = ''ACTIVE''
   \<and> sameDayScan exEnv ''Australia/Hobart'' 1 ''CHECK_IN'' (exScanAt 1700006410000)
   \<and> handleScan exEnv exBody (exDbScanned 1700006410000)
     = (Conflict ''already_checked_in_today''
          (formatDateTimeTZ exEnv 1700006410000 ''Australia/Hobart''),
        exDbScanned 1700006410000, [])
   \<and> httpStatus (fst (handleScan exEnv (exBody\<lparr>b_recheck := JBool True\<rparr>)
                         (exDbScanned 1700006410000))) = 200
   \<and> length (scan_event (fst (snd (handleScan exEnv (exBody\<lparr>b_recheck := JBool True\<rparr>)
                                     (exDbScanned 1700006410000))))) = 2"
proof -
  let ?d = "exDbScanned 1700006410000"
  let ?b = "exBody\<lparr>b_recheck := JBool True\<rparr>"
  have wf: "wellFormed ?b" using ex_wellFormed by (simp add: wellFormed_def scanTypeOf_def)
  have rs: "resolveQr ?d (prepareValue exEnv (b_qrCode ?b)) = Some exQr"
    using ex_resolve_scanned(1) [of 1700006410000] by simp
  have ex: "\<exists>r\<in>set (scan_event ?d).
      sameDayScan exEnv (os_timezone (getOrgSettings exEnv ?d)) (r_student_id exQr)
        (scanTypeOf exBody) r"
    using ex_sameDay_today by (simp add: exDbScanned_fields ex_settings ex_sid ex_scanType)
  from handleScan_same_day_guard [OF ex_wellFormed ex_resolve_scanned(1) [of 1700006410000] ex_act] ex_re ex
  obtain earlier where "earlier \<in> set (scan_event ?d)"
    and "handleScan exEnv exBody ?d
         = (Conflict (if scanTypeOf exBody = ''CHECK_IN'' then ''already_checked_in_today''
                      else ''already_checked_out_today'')
              (formatDateTimeTZ exEnv (se_scanned_at earlier)
                 (os_timezone (getOrgSettings exEnv ?d))), ?d, [])"
    by blast
  then have a: "handleScan exEnv exBody ?d
     = (Conflict ''already_checked_in_today''
          (formatDateTimeTZ exEnv 1700006410000 ''Australia/Hobart''), ?d, [])"
    by (simp add: exDbScanned_fields exScanAt_fields ex_scanType ex_settings)
  have "b_recheck ?b = JBool True" by simp
  with handleScan_same_day_guard [OF wf rs ex_act]
  obtain scan where "httpStatus (fst (handleScan exEnv ?b ?d)) = 200"
    and "scan_event (fst (snd (handleScan exEnv ?b ?d))) = scan_event ?d @ [scan]"
    by blast
  then have b: "httpStatus (fst (handleScan exEnv ?b ?d)) = 200"
    "length (scan_event (fst (snd (handleScan exEnv ?b ?d)))) = 2"
    by (simp_all add: exDbScanned_fields)
  from ex_wellFormed ex_resolve_scanned(1) ex_act ex_sameDay_today a b show ?thesis by simp
qed

lemma exBad_not_wf: "\<not> wellFormed exBadBody"
  by (simp add: wellFormed_def exBadBody_def scanTypeOf_def toUpperCase_def upperChar_def)

lemma exBad_unresolved: "resolveQr exDb (prepareValue exEnv (b_qrCode exBadBody)) = None"
  by (simp add: resolveQr_def exDb_def exBadBody_def exToken_def)

lemma ex_passes: "passesGuard exEnv exBody exDb exQr"
  by (simp add: passesGuard_def exDb_fields)

theorem handleScan_qr_resolution_counterexample:
  "resolveQr exDb (prepareValue exEnv (b_qrCode exBadBody)) = None
   \<and> list_all (\<lambda>q. Some (qr_token q) \<noteq> prepareValue exEnv (b_qrCode exBadBody)) (qr_code exDb)
   \<and> handleScan exEnv exBadBody exDb
     = (BadRequest ''type must be CHECK_IN or CHECK_OUT'', exDb, [])
   \<and> httpStatus (fst (handleScan exEnv exBadBody exDb)) \<noteq> 404"
proof -
  have "handleScan exEnv exBadBody exDb
        = (BadRequest ''type must be CHECK_IN or CHECK_OUT'', exDb, [])"
    by (simp add: handleScan_def exBadBody_def toUpperCase_def upperChar_def Let_def)
  moreover have "list_all (\<lambda>q. Some (qr_token q) \<noteq> prepareValue exEnv (b_qrCode exBadBody))
                   (qr_code exDb)"
    by (simp add: exDb_def exBadBody_def exToken_def prepareValue_def)
  ultimately show ?thesis using exBad_unresolved by simp
qed

lemma exThrow_throws: "throwsOnType exThrowBody"
  by (simp add: throwsOnType_def exThrowBody_def exBody_def exToken_def)

lemma exBad_not_throws: "\<not> throwsOnType exBadBody"
  by (simp add: throwsOnType_def exBadBody_def)

theorem handleScan_qr_resolution_witness:
  "wellFormed (exBody\<lparr>b_qrCode := JStr ''no-such-token''\<rparr>)
   \<and> handleScan exEnv (exBody\<lparr>b_qrCode := JStr ''no-such-token''\<rparr>) exDb
     = (NotFound ''QR code not found or inactive'', exDb, [])
   \<and> resolveQr (exDbInactive 1700006410000) (prepareValue exEnv (b_qrCode exBody))
     = Some (exQr\<lparr>r_status := ''INACTIVE''\<rparr>)
   \<and> handleScan exEnv exBody (exDbInactive 1700006410000)
     = (BadRequest ''Student is inactive'', exDbInactive 1700006410000, [])
   \<and> \<not> wellFormed exBadBody \<and> \<not> throwsOnType exBadBody
   \<and> httpStatus (fst (handleScan exEnv exBadBody exDb)) = 400
   \<and> snd (handleScan exEnv exBadBody exDb) = (exDb, [])
   \<and> throwsOnType exThrowBody
   \<and> handleScan exEnv exThrowBody exDb = (ServerError, exDb, [])
   \<and> httpStatus (fst (handleScan exEnv exBody exDb)) = 200
   \<and> list_ex (\<lambda>q. Some (qr_token q) = prepareValue exEnv (b_qrCode exBody) \<and> qr_active q
                   \<and> list_ex (\<lambda>s. st_id s = qr_student_id q \<and> st_status s = ''ACTIVE'')
                        (student exDb))
        (qr_code exDb)"
proof -
  let ?b = "exBody\<lparr>b_qrCode := JStr ''no-such-token''\<rparr>"
  have wf: "wellFormed ?b" using ex_wellFormed by (simp add: wellFormed_def scanTypeOf_def)
  have no: "\<not> (\<exists>q\<in>set (qr_code exDb). Some (qr_token q) = prepareValue exEnv (b_qrCode ?b)
                  \<and> qr_active q)"
    by (simp add: exDb_def exToken_def prepareValue_def)
  from handleScan_qr_resolution [of ?b exDb exEnv] wf no
  have a: "handleScan exEnv ?b exDb = (NotFound ''QR code not found or inactive'', exDb, [])"
    by blast
  have "r_status (exQr\<lparr>r_status := ''INACTIVE''\<rparr>) \<noteq> ''ACTIVE''" by simp
  with handleScan_qr_resolution [of exBody "exDbInactive 1700006410000" exEnv] ex_wellFormed
    ex_resolve_inactive [of 1700006410000]
  have b: "handleScan exEnv exBody (exDbInactive 1700006410000)
           = (BadRequest ''Student is inactive'', exDbInactive 1700006410000, [])"
    by blast
  from handleScan_qr_resolution [of exBadBody exDb exEnv] exBad_not_wf exBad_not_throws
  obtain m where m: "handleScan exEnv exBadBody exDb = (BadRequest m, exDb, [])" by blast
  then have c: "httpStatus (fst (handleScan exEnv exBadBody exDb)) = 400" by simp
  with handleScan_qr_resolution [of exBadBody exDb exEnv]
  have d: "snd (handleScan exEnv exBadBody exDb) = (exDb, [])"
    by blast
  from handleScan_qr_resolution [of exThrowBody exDb exEnv] exThrow_throws
  have t: "handleScan exEnv exThrowBody exDb = (ServerError, exDb, [])" by blast
  have ok: "httpStatus (fst (handleScan exEnv exBody exDb)) = 200"
    by (rule handleScan_recorded_status [OF ex_wellFormed ex_resolve_scanned(2) ex_act ex_passes])
  then have "httpStatus (fst (handleScan exEnv exBody exDb)) \<notin> {400, 404, 500}" by simp
  with handleScan_qr_resolution [of exBody exDb exEnv]
  have "\<exists>q\<in>set (qr_code exDb). \<exists>s\<in>set (student exDb).
            Some (qr_token q) = prepareValue exEnv (b_qrCode exBody) \<and> qr_active q
            \<and> st_id s = qr_student_id q \<and> st_status s = ''ACTIVE''"
    by blast
  then have f: "list_ex (\<lambda>q. Some (qr_token q) = prepareValue exEnv (b_qrCode exBody) \<and> qr_active q
                   \<and> list_ex (\<lambda>s. st_id s = qr_student_id q \<and> st_status s = ''ACTIVE'')
                        (student exDb))
        (qr_code exDb)"
    unfolding list_ex_iff by blast
  from wf a ex_resolve_inactive [of 1700006410000] b exBad_not_wf exBad_not_throws c d
    exThrow_throws t ok f
  show ?thesis by blast
qed

lemma ex_guardians:
  "guardiansOf exDb (r_student_id exQr)
   = [\<lparr>g_id = 1, g_phone_e164 = ''+61400000001'', g_active = True, g_phone_valid = True\<rparr>,
      \<lparr>g_id = 2, g_phone_e164 = ''+61400000002'', g_active = True, g_phone_valid = True\<rparr>]"
  by (simp add: guardiansOf_def exDb_def exQr_def)

lemma ex_nodup: "\<not> isDuplicateFor exEnv exBody exDb exQr"
  by (simp add: isDuplicateFor_def isDuplicateScan_def exDb_fields)

lemma ex_allowed: "smsAllowedFor exEnv exBody exDb"
  by (simp add: smsAllowedFor_def ex_settings ex_scanType exBody_def)

lemma exEnvCredit_fields:
  "jsNow exEnvCredit = jsNow exEnv" "dbNow exEnvCredit = dbNow exEnv"
  "localDate exEnvCredit = localDate exEnv" "userId exEnvCredit = userId exEnv"
  "env_CENTER_NAME exEnvCredit = env_CENTER_NAME exEnv"
  "clickSend exEnvCredit items
   = Some (map (\<lambda>(k, i). \<lparr>m_to = i_to i, m_message_id = Some ''M1'',
                          m_status = Some (if k = 0 then ''SUCCESS''
                                           else ''INSUFFICIENT_CREDIT'')\<rparr>)
               (enumerate 0 items))"
  by (simp_all add: exEnvCredit_def)

lemma exDbShared_fields:
  "qr_code exDbShared = qr_code exDb" "student exDbShared = student exDb"
  "scan_event exDbShared = []" "student_guardian exDbShared = student_guardian exDb"
  "message_recipient exDbShared = []" "message_log_seq exDbShared = 0"
  "setting_center_profile exDbShared = None" "setting_sms_policy exDbShared = None"
  by (simp_all add: exDbShared_def exDb_def)

lemma exShared_resolve:
  "resolveQr exDbShared (prepareValue exEnvCredit (b_qrCode exBody)) = Some exQr"
  using ex_resolve_scanned(2) by (simp add: resolveQr_def exDbShared_fields exBody_def)

lemma exShared_passes: "passesGuard exEnvCredit exBody exDbShared exQr"
  by (simp add: passesGuard_def exDbShared_fields)

lemma exShared_nodup: "\<not> isDuplicateFor exEnvCredit exBody exDbShared exQr"
  by (simp add: isDuplicateFor_def isDuplicateScan_def exDbShared_fields)

lemma exShared_allowed: "smsAllowedFor exEnvCredit exBody exDbShared"
  by (simp add: smsAllowedFor_def getOrgSettings_def exDbShared_fields ex_scanType exBody_def)

lemma exShared_guardians:
  "guardiansOf exDbShared (r_student_id exQr)
   = [\<lparr>g_id = 1, g_phone_e164 = ''+61400000001'', g_active = True, g_phone_valid = True\<rparr>,
      \<lparr>g_id = 2, g_phone_e164 = ''+61400000001'', g_active = True, g_phone_valid = True\<rparr>]"
  by (simp add: guardiansOf_def exDbShared_def exDb_def exQr_def)

theorem handleScan_recipients_counterexample:
  "wellFormed exBody
   \<and> resolveQr exDbShared (prepareValue exEnvCredit (b_qrCode exBody)) = Some exQr
   \<and> r_status exQr = ''ACTIVE'' \<and> passesGuard exEnvCredit exBody exDbShared exQr
   \<and> \<not> isDuplicateFor exEnvCredit exBody exDbShared exQr
   \<and> smsAllowedFor exEnvCredit exBody exDbShared
   \<and> map g_id (guardiansOf exDbShared (r_student_id exQr)) = [1, 2]
   \<and> map (map i_to) (snd (snd (handleScan exEnvCredit exBody exDbShared)))
     = [[''+61400000001'', ''+61400000001'']]
   \<and> map m_status (gatewayMessages exEnvCredit
                      (hd (snd (snd (handleScan exEnvCredit exBody exDbShared)))))
     = [Some ''SUCCESS'', Some ''INSUFFICIENT_CREDIT'']
   \<and> map mr_guardian_id (message_recipient (fst (snd (handleScan exEnvCredit exBody exDbShared))))
     = [1, 2]
   \<and> map mr_gateway_status
        (message_recipient (fst (snd (handleScan exEnvCredit exBody exDbShared))))
     = [''SUCCESS'', ''SUCCESS'']
   \<and> map mr_status (message_recipient (fst (snd (handleScan exEnvCredit exBody exDbShared))))
     = [''SENT'', ''SENT'']"
proof -
  note r = handleScan_recipient_rows [OF ex_wellFormed exShared_resolve ex_act exShared_passes
      exShared_nodup exShared_allowed]
  define items where "items = snd (snd (handleScan exEnvCredit exBody exDbShared))"
  have calls: "map (map i_to) items = [[''+61400000001'', ''+61400000001'']]"
    unfolding items_def r(2) by (simp add: exShared_guardians)
  have items: "\<exists>b. hd items = [\<lparr>i_to = ''+61400000001'', i_body = b\<rparr>,
                                 \<lparr>i_to = ''+61400000001'', i_body = b\<rparr>]"
    unfolding items_def r(2) by (simp add: exShared_guardians)
  then obtain b where hd: "hd items = [\<lparr>i_to = ''+61400000001'', i_body = b\<rparr>,
                                 \<lparr>i_to = ''+61400000001'', i_body = b\<rparr>]" by blast
  have m: "gatewayMessages exEnvCredit (hd items)
      = [\<lparr>m_to = ''+61400000001'', m_message_id = Some ''M1'', m_status = Some ''SUCCESS''\<rparr>,
         \<lparr>m_to = ''+61400000001'', m_message_id = Some ''M1'',
           m_status = Some ''INSUFFICIENT_CREDIT''\<rparr>]"
    unfolding hd by (simp add: gatewayMessages_def sendSmsMany_def exEnvCredit_fields)
  have hd': "map (\<lambda>g. \<lparr>i_to = g_phone_e164 g,
                 i_body = composeBody exEnvCredit exDbShared exQr (scanTypeOf exBody)
                            (getOrgSettings exEnvCredit exDbShared) (b_messageOverride exBody)\<rparr>)
               (guardiansOf exDbShared (r_student_id exQr)) = hd items"
    unfolding items_def r(2) by (simp add: exShared_guardians)
  have rows: "message_recipient (fst (snd (handleScan exEnvCredit exBody exDbShared)))
      = map (recipientRow 1 (gatewayMessages exEnvCredit (hd items)))
          (guardiansOf exDbShared (r_student_id exQr))"
    unfolding r(1) hd' by (simp add: exDbShared_fields)
  have "map mr_guardian_id (message_recipient (fst (snd (handleScan exEnvCredit exBody exDbShared))))
     = [1, 2]"
    "map mr_gateway_status
        (message_recipient (fst (snd (handleScan exEnvCredit exBody exDbShared))))
     = [''SUCCESS'', ''SUCCESS'']"
    "map mr_status (message_recipient (fst (snd (handleScan exEnvCredit exBody exDbShared))))
     = [''SENT'', ''SENT'']"
    unfolding rows m exShared_guardians
    by (simp_all add: recipientRow_def gatewayStatusFor_def statusNorm_def orElse_def)
  with calls m ex_wellFormed exShared_resolve ex_act exShared_passes exShared_nodup
    exShared_allowed
  show ?thesis unfolding items_def [symmetric] by (simp add: exShared_guardians)
qed

theorem handleScan_recipients_witness:
  "wellFormed exBody \<and> resolveQr exDb (prepareValue exEnv (b_qrCode exBody)) = Some exQr
   \<and> r_status exQr = ''ACTIVE'' \<and> passesGuard exEnv exBody exDb exQr
   \<and> \<not> isDuplicateFor exEnv exBody exDb exQr \<and> smsAllowedFor exEnv exBody exDb
   \<and> distinct (map g_phone_e164 (guardiansOf exDb (r_student_id exQr)))
   \<and> respRecipients (fst (handleScan exEnv exBody exDb)) = Some [''+61400000001'', ''+61400000002'']
   \<and> map mr_guardian_id (message_recipient (fst (snd (handleScan exEnv exBody exDb)))) = [1, 2]
   \<and> map mr_gateway_status (message_recipient (fst (snd (handleScan exEnv exBody exDb))))
     = [''SUCCESS'', ''INVALID_RECIPIENT'']
   \<and> map mr_status (message_recipient (fst (snd (handleScan exEnv exBody exDb))))
     = [''SENT'', ''FAILED'']"
proof -
  note t = handleScan_recipients [OF ex_wellFormed ex_resolve_scanned(2) ex_act ex_passes ex_nodup ex_allowed]
  from t have rec: "respRecipients (fst (handleScan exEnv exBody exDb))
                    = Some (map g_phone_e164 (guardiansOf exDb (r_student_id exQr)))"
    by blast
  from t obtain msgs where
    rows: "message_recipient (fst (snd (handleScan exEnv exBody exDb)))
           = message_recipient exDb
             @ map (recipientRow (message_log_seq exDb + 1) msgs) (guardiansOf exDb (r_student_id exQr))"
    and msgs: "msgs = gatewayMessages exEnv
                (map (\<lambda>g. \<lparr>i_to = g_phone_e164 g,
                            i_body = composeBody exEnv exDb exQr (scanTypeOf exBody)
                                       (getOrgSettings exEnv exDb) (b_messageOverride exBody)\<rparr>)
                     (guardiansOf exDb (r_student_id exQr)))"
    by blast
  have m: "msgs = [\<lparr>m_to = ''+61400000001'', m_message_id = Some ''M1'', m_status = Some ''SUCCESS''\<rparr>,
                   \<lparr>m_to = ''+61400000002'', m_message_id = Some ''M1'',
                     m_status = Some ''INVALID_RECIPIENT''\<rparr>]"
    using msgs by (simp add: ex_guardians gatewayMessages_def sendSmsMany_def exEnv_fields)
  have r: "message_recipient (fst (snd (handleScan exEnv exBody exDb)))
           = [recipientRow 1 msgs \<lparr>g_id = 1, g_phone_e164 = ''+61400000001'', g_active = True,
                                    g_phone_valid = True\<rparr>,
              recipientRow 1 msgs \<lparr>g_id = 2, g_phone_e164 = ''+61400000002'', g_active = True,
                                    g_phone_valid = True\<rparr>]"
    using rows by (simp add: ex_guardians exDb_fields)
  have "map mr_guardian_id (message_recipient (fst (snd (handleScan exEnv exBody exDb)))) = [1, 2]"
    "map mr_gateway_status (message_recipient (fst (snd (handleScan exEnv exBody exDb))))
     = [''SUCCESS'', ''INVALID_RECIPIENT'']"
    "map mr_status (message_recipient (fst (snd (handleScan exEnv exBody exDb))))
     = [''SENT'', ''FAILED'']"
    unfolding r m
    by (simp_all add: recipientRow_def gatewayStatusFor_def statusNorm_def orElse_def)
  with rec ex_wellFormed ex_resolve_scanned(2) ex_act ex_passes ex_nodup ex_allowed
  show ?thesis by (simp add: ex_guardians)
qed

theorem handleScan_headcount_only_witness:
  "wellFormed (exBody\<lparr>b_headcountOnly := JBool True\<rparr>)
   \<and> passesGuard exEnv (exBody\<lparr>b_headcountOnly := JBool True\<rparr>) exDb exQr
   \<and> smsAllowedFor exEnv exBody exDb
   \<and> httpStatus (fst (handleScan exEnv (exBody\<lparr>b_headcountOnly := JBool True\<rparr>) exDb)) = 200
   \<and> map se_meta (scan_event (fst (snd (handleScan exEnv (exBody\<lparr>b_headcountOnly := JBool True\<rparr>) exDb))))
     = [[(''headcountOnly'', True)]]
   \<and> message_log (fst (snd (handleScan exEnv (exBody\<lparr>b_headcountOnly := JBool True\<rparr>) exDb))) = []
   \<and> message_recipient (fst (snd (handleScan exEnv (exBody\<lparr>b_headcountOnly := JBool True\<rparr>) exDb))) = []
   \<and> snd (snd (handleScan exEnv (exBody\<lparr>b_headcountOnly := JBool True\<rparr>) exDb)) = []"
proof -
  let ?b = "exBody\<lparr>b_headcountOnly := JBool True\<rparr>"
  have wf: "wellFormed ?b" using ex_wellFormed by (simp add: wellFormed_def scanTypeOf_def)
  have rs: "resolveQr exDb (prepareValue exEnv (b_qrCode ?b)) = Some exQr"
    using ex_resolve_scanned(2) by simp
  have pg: "passesGuard exEnv ?b exDb exQr" by (simp add: passesGuard_def exDb_fields)
  have nd: "\<not> isDuplicateFor exEnv ?b exDb exQr"
    by (simp add: isDuplicateFor_def isDuplicateScan_def exDb_fields)
  have hc: "b_headcountOnly ?b = JBool True" by simp
  note t = handleScan_headcount_only [OF wf rs ex_act pg nd hc]
  from t have hs: "handleScan exEnv ?b exDb
           = (NoSmsOk (recordedScan exEnv ?b exDb exQr) False True,
              exDb\<lparr>scan_event := scan_event exDb @ [recordedScan exEnv ?b exDb exQr],
                scan_event_seq := se_id (recordedScan exEnv ?b exDb exQr)\<rparr>, [])"
    by blast
  have meta: "se_meta (recordedScan exEnv ?b exDb exQr) = [(''headcountOnly'', True)]"
    by (simp add: recordedScan_def newScanEvent_def exBody_def)
  from hs meta wf pg ex_allowed show ?thesis by (simp add: exDb_fields)
qed

section \<open>Properties of the template renderer\<close>

lemma replaceTokens_literal:
  "CHR ''{'' \<notin> set s \<Longrightarrow> replaceTokens f (s @ rest) = s @ replaceTokens f rest"
  by (induction s) (auto simp: replaceTokens.simps(2))

lemma replaceTokens_token:
  assumes "k \<noteq> []" "CHR ''}'' \<notin> set k"
  shows "replaceTokens f (CHR ''{'' # k @ CHR ''}'' # rest)
         = f (CHR ''{'' # k @ ''}'') k @ replaceTokens f rest"
proof -
  have t: "takeWhile (\<lambda>x. x \<noteq> CHR ''}'') (k @ CHR ''}'' # rest) = k"
    using assms(2) by (induction k) auto
  have d: "dropWhile (\<lambda>x. x \<noteq> CHR ''}'') (k @ CHR ''}'' # rest) = CHR ''}'' # rest"
    using assms(2) by (induction k) auto
  show ?thesis
    using assms(1) by (simp add: replaceTokens.simps(2) t d)
qed

lemma replacer_plain:
  "k \<notin> set objectPrototypeKeys \<Longrightarrow>
   replacer e c (CHR ''{'' # k @ ''}'') k = expandSegment e c (Tok k)"
  by (simp add: replacer_def split: option.splits)

lemma replaceTokens_segments:
  "list_all plainSegment segs \<Longrightarrow>
   replaceTokens (replacer e c) (templateText segs @ rest)
   = concat (map (expandSegment e c) segs) @ replaceTokens (replacer e c) rest"
proof (induction segs)
  case Nil
  then show ?case by (simp add: templateText_def)
next
  case (Cons seg segs)
  then have ih: "replaceTokens (replacer e c) (templateText segs @ rest)
      = concat (map (expandSegment e c) segs) @ replaceTokens (replacer e c) rest"
    and p: "plainSegment seg"
    by simp_all
  show ?case
  proof (cases seg)
    case (Lit s)
    with p have "CHR ''{'' \<notin> set s" by simp
    from replaceTokens_literal [OF this, of "replacer e c" "templateText segs @ rest"] ih Lit
    show ?thesis by (simp add: templateText_def)
  next
    case (Tok k)
    with p have k: "k \<noteq> []" "CHR ''}'' \<notin> set k" "k \<notin> set objectPrototypeKeys" by simp_all
    from replaceTokens_token [OF k(1,2), of "replacer e c" "templateText segs @ rest"]
      replacer_plain [OF k(3), of e c] ih Tok
    show ?thesis by (simp add: templateText_def)
  qed
qed

lemma trim_id:
  assumes "s \<noteq> []" "\<not> isJsWhiteSpace (hd s)" "\<not> isJsWhiteSpace (last s)"
  shows "trim s = s"
proof -
  have a: "dropWhile isJsWhiteSpace s = s"
    using assms(1,2) by (cases s) simp_all
  have "rev s \<noteq> []" "\<not> isJsWhiteSpace (hd (rev s))"
    using assms(1,3) by (simp_all add: hd_rev)
  then have b: "dropWhile isJsWhiteSpace (rev s) = rev s"
    by (cases "rev s") simp_all
  show ?thesis by (simp add: trim_def a b)
qed

lemma tokenMap_keys:
  "map fst (tokenMap e c)
   = [''student.firstName'', ''student.lastName'', ''student.fullName'', ''student.id'',
      ''type'', ''time'', ''date'', ''center.name'', ''centre.name'', ''timezone'']"
  by (simp add: tokenMap_def)

lemma student_full_cases:
  "(student_first st = [] \<and> student_last st = [] \<longrightarrow> student_full st = ''Student'')
   \<and> (student_first st \<noteq> [] \<and> student_last st \<noteq> [] \<longrightarrow>
        student_full st = orElse (Some (trim (student_first st @ '' '' @ student_last st))) ''Student'')
   \<and> (student_first st \<noteq> [] \<and> student_last st \<noteq> []
        \<and> \<not> isJsWhiteSpace (hd (student_first st)) \<and> \<not> isJsWhiteSpace (last (student_last st))
      \<longrightarrow> student_full st = student_first st @ '' '' @ student_last st)
   \<and> (student_first st \<noteq> [] \<and> student_last st = [] \<longrightarrow>
        student_full st = orElse (Some (trim (student_first st))) ''Student'')
   \<and> (student_first st = [] \<and> student_last st \<noteq> [] \<longrightarrow>
        student_full st = orElse (Some (trim (student_last st))) ''Student'')"
proof -
  have "trim (student_first st @ '' '' @ student_last st) = student_first st @ '' '' @ student_last st"
    if "student_first st \<noteq> []" "student_last st \<noteq> []"
      "\<not> isJsWhiteSpace (hd (student_first st))" "\<not> isJsWhiteSpace (last (student_last st))"
    using that by (intro trim_id) simp_all
  then show ?thesis
    by (auto simp: student_full_def orElse_def trim_def)
qed

text \<open>
  Claim C5, as amended. For a template made of literal pieces without an opening brace and
  of tokens \<open>{key}\<close> whose key is not empty, has no closing brace and is not the name of
  a member of \<^verbatim>\<open>Object.prototype\<close>, \<^verbatim>\<open>renderSmsTemplate\<close> replaces every token
  whose key is one of the ten known names by its value, leaves every other token as
  written, keeps the literal pieces, and trims the result. The full name is the first and
  last names that are not empty, joined by a space and trimmed, or \<open>Student\<close> when that
  is empty: \<open>Student\<close> when both names are empty, and the two names with a space between
  them when neither is empty nor has white space on the outside.
\<close>

theorem renderSmsTemplate_tokens:
  assumes "list_all plainSegment segs"
  shows "renderSmsTemplate e (templateText segs) c = trim (concat (map (expandSegment e c) segs))
       \<and> map fst (tokenMap e c)
           = [''student.firstName'', ''student.lastName'', ''student.fullName'', ''student.id'',
              ''type'', ''time'', ''date'', ''center.name'', ''centre.name'', ''timezone'']
       \<and> map_of (tokenMap e c) ''student.fullName'' = Some (student_full (c_student c))
       \<and> student_full (c_student c)
           = orElse (Some (trim (joinWith '' '' (filter (\<lambda>x. x \<noteq> [])
                       [student_first (c_student c), student_last (c_student c)])))) ''Student''
       \<and> (student_first (c_student c) = [] \<and> student_last (c_student c) = []
            \<longrightarrow> student_full (c_student c) = ''Student'')
       \<and> (student_first (c_student c) \<noteq> [] \<and> student_last (c_student c) \<noteq> []
            \<and> \<not> isJsWhiteSpace (hd (student_first (c_student c)))
            \<and> \<not> isJsWhiteSpace (last (student_last (c_student c)))
            \<longrightarrow> student_full (c_student c)
                  = student_first (c_student c) @ '' '' @ student_last (c_student c))"
proof -
  from replaceTokens_segments [OF assms, of e c "[]"]
  have "renderSmsTemplate e (templateText segs) c = trim (concat (map (expandSegment e c) segs))"
    by (simp add: renderSmsTemplate_def replaceTokens.simps(1))
  moreover have "map_of (tokenMap e c) ''student.fullName'' = Some (student_full (c_student c))"
    by (simp add: tokenMap_def)
  ultimately show ?thesis
    using tokenMap_keys [of e c] student_full_cases [of "c_student c"]
    by (simp add: student_full_def)
qed

lemma showNat_one: "showNat (Suc 0) = ''1''"
  by (subst showNat.simps) (simp add: digitChar_def)

lemma exCtx_map:
  "tokenMap exEnv exCtx
   = [(''student.firstName'', ''Ada''), (''student.lastName'', ''Lovelace''),
      (''student.fullName'', ''Ada Lovelace''), (''student.id'', ''1''),
      (''type'', ''CHECK_IN''), (''time'', ''11:00 am AEDT''), (''date'', ''Wed, 15 Nov 2023''),
      (''center.name'', ''Kumon''), (''centre.name'', ''Kumon''),
      (''timezone'', ''Australia/Hobart'')]"
  by (simp add: tokenMap_def exCtx_def exEnv_fields orElse_def student_first_def student_last_def
      student_full_def trim_def isJsWhiteSpace_def ctx_timeZone_def ctx_centre_def
      showNat_one toUpperCase_def upperChar_def)

theorem renderSmsTemplate_tokens_counterexample:
  "map_of (tokenMap exEnv exCtx) ''type'' = Some ''CHECK_IN''
   \<and> renderSmsTemplate exEnv ''{{type}}'' exCtx = ''{{type}}''"
  by (simp add: exCtx_map renderSmsTemplate_def replaceTokens.simps replacer_def
      objectPrototypeKeys_def trim_def isJsWhiteSpace_def)

theorem renderSmsTemplate_tokens_witness:
  "list_all plainSegment exTemplate
   \<and> templateText exTemplate
     = ''{student.fullName} checked in at {time} on {date} ({centre.name}). Ref {booking.ref} ''
   \<and> renderSmsTemplate exEnv (templateText exTemplate) exCtx
     = ''Ada Lovelace checked in at 11:00 am AEDT on Wed, 15 Nov 2023 (Kumon). Ref {booking.ref}''"
proof -
  have p: "list_all plainSegment exTemplate"
    by (simp add: exTemplate_def objectPrototypeKeys_def)
  have t: "templateText exTemplate
     = ''{student.fullName} checked in at {time} on {date} ({centre.name}). Ref {booking.ref} ''"
    by (simp add: exTemplate_def templateText_def)
  from renderSmsTemplate_tokens [OF p, of exEnv exCtx]
  have "renderSmsTemplate exEnv (templateText exTemplate) exCtx
        = trim (concat (map (expandSegment exEnv exCtx) exTemplate))"
    by blast
  also have "\<dots> = ''Ada Lovelace checked in at 11:00 am AEDT on Wed, 15 Nov 2023 (Kumon). Ref {booking.ref}''"
    by (simp add: exTemplate_def exCtx_map trim_def isJsWhiteSpace_def)
  finally show ?thesis using p t by simp
qed

text \<open>
  A key that names a member of \<^verbatim>\<open>Object.prototype\<close> is found in the token map, although
  it is not one of the known tokens: the token is replaced by the text of that member.
\<close>

lemma ex_inherited: "inheritedText exEnv ''toString'' = ''function toString() { [native code] }''"
  by (simp add: exEnv_def)

lemma renderSmsTemplate_inherited_member:
  "renderSmsTemplate exEnv ''{toString}'' exCtx = ''function toString() { [native code] }''"
proof -
  have "replaceTokens (replacer exEnv exCtx) ''{toString}'' = inheritedText exEnv ''toString''"
    by (simp add: exCtx_map replaceTokens.simps replacer_def objectPrototypeKeys_def)
  then show ?thesis
    by (simp add: renderSmsTemplate_def ex_inherited trim_def isJsWhiteSpace_def)
qed

section \<open>Properties of the QR codes\<close>

lemma isUUID_ends:
  assumes "isUUID t"
  shows "t \<noteq> []" "isHexLower (hd t)" "isHexLower (last t)"
proof -
  from assms have len: "length t = 36"
    and all: "list_all (\<lambda>i. if i \<in> set [8, 13, 18, 23] then t ! i = CHR ''-''
                             else isHexLower (t ! i)) [0 ..< 36]"
    by (simp_all add: isUUID_def)
  from len show ne: "t \<noteq> []" by auto
  have "(0::nat) \<in> set [0 ..< 36]" "(35::nat) \<in> set [0 ..< 36]" by simp_all
  with all have "isHexLower (t ! 0)" "isHexLower (t ! 35)"
    unfolding list_all_iff by force+
  then show "isHexLower (hd t)" "isHexLower (last t)"
    using ne len by (simp_all add: hd_conv_nth last_conv_nth)
qed

lemma hex_not_space: "isHexLower c \<Longrightarrow> \<not> isJsWhiteSpace c \<and> \<not> isJsonWhiteSpace c \<and> c \<noteq> CHR ''{''"
  by (auto simp: isHexLower_def isJsWhiteSpace_def isJsonWhiteSpace_def)

lemma parseToken_uuid:
  assumes "objectsStartWithBrace jsonParse" "isUUID t"
  shows "parseToken jsonParse t = Some t"
proof -
  note e = isUUID_ends [OF assms(2)]
  from e(1) obtain c cs where t: "t = c # cs" by (cases t) auto
  with e(2) have c: "\<not> isJsonWhiteSpace c" "c \<noteq> CHR ''{''"
    using hex_not_space by auto
  have "jsonParse t \<noteq> Some (JObj props)" for props
  proof
    assume "jsonParse t = Some (JObj props)"
    with assms(1) obtain rest where "dropWhile isJsonWhiteSpace t = CHR ''{'' # rest"
      unfolding objectsStartWithBrace_def by blast
    with t c show False by simp
  qed
  then have inner: "(case jsonParse t of
              Some (JObj props) \<Rightarrow>
                (case map_of props ''token'' of
                   Some (JStr t) \<Rightarrow> if t \<noteq> [] then Some t else None
                 | _ \<Rightarrow> None)
            | _ \<Rightarrow> None) = None"
    by (auto split: option.splits jsval.splits)
  have tr: "trim t = t"
    using e hex_not_space by (intro trim_id) auto
  show ?thesis
    unfolding parseToken_def inner using e(1) tr by simp
qed

lemma parseToken_json:
  "jsonParse raw = Some (JObj props) \<Longrightarrow> map_of props ''token'' = Some (JStr t) \<Longrightarrow> t \<noteq> [] \<Longrightarrow>
   parseToken jsonParse raw = Some t"
  by (simp add: parseToken_def)

lemma uuid_not_payload: "isUUID t \<Longrightarrow> t \<noteq> scriptPayload t'"
proof
  assume u: "isUUID t" and "t = scriptPayload t'"
  then have "hd t = CHR ''{''" by (simp add: scriptPayload_def)
  with isUUID_ends(2) [OF u] hex_not_space show False by blast
qed

lemma ensureActiveToken_cases:
  assumes "ensureActiveToken e k sid d = (token, d', k')"
  shows "(\<exists>q\<in>set (qr_code d'). qr_student_id q = sid \<and> qr_active q \<and> qr_token q = token)
       \<and> ((\<exists>q\<in>set (qr_code d). qr_token q = token) \<or> token = randomUUID e k)"
proof (cases "List.find (\<lambda>q. qr_student_id q = sid \<and> qr_active q) (qr_code d)")
  case None
  with assms show ?thesis by (auto simp: ensureActiveToken_def Let_def)
next
  case (Some q)
  from find_Some_mem [OF Some] have q: "q \<in> set (qr_code d)" "qr_student_id q = sid" "qr_active q"
    by auto
  show ?thesis
  proof (cases "qr_token q = []")
    case True
    with Some assms show ?thesis by (auto simp: ensureActiveToken_def Let_def)
  next
    case False
    with Some assms have "token = qr_token q" "d' = d"
      by (auto simp: ensureActiveToken_def Let_def)
    with q show ?thesis by auto
  qed
qed

lemma trim_Nil_iff: "raw \<noteq> [] \<and> trim raw \<noteq> [] \<longleftrightarrow> trim raw \<noteq> []"
  by (auto simp: trim_def)

lemma parseToken_fallback:
  assumes "\<And>props t. jsonParse raw = Some (JObj props) \<Longrightarrow> map_of props ''token'' \<noteq> Some (JStr t) \<or> t = []"
  shows "parseToken jsonParse raw = (if trim raw \<noteq> [] then Some (trim raw) else None)"
proof -
  have inner: "(case jsonParse raw of
              Some (JObj props) \<Rightarrow>
                (case map_of props ''token'' of
                   Some (JStr t) \<Rightarrow> if t \<noteq> [] then Some t else None
                 | _ \<Rightarrow> None)
            | _ \<Rightarrow> None) = None"
    using assms by (auto split: option.splits jsval.splits)
  show ?thesis unfolding parseToken_def inner by (simp add: trim_Nil_iff)
qed

text \<open>
  For a student that exists, the image that \<^verbatim>\<open>generateQRCodes\<close> stores on a request
  for that student encodes the token of an active \<open>qr_code\<close> row of the student as plain
  text: a UUID, not the JSON payload that the script renders and not the database
  identifier. \<^verbatim>\<open>parseToken\<close> recovers the token from that text, and recovers it from
  the script's JSON payload when \<^verbatim>\<open>JSON.parse\<close> reads the payload.
\<close>

lemma generateQRCodes_stores_token:
  assumes "0 < sid"
    and "list_ex (\<lambda>s. st_id s = sid) (student d)"
    and "list_all (\<lambda>q. isUUID (qr_token q)) (qr_code d)"
    and "isUUID (randomUUID e 0)"
    and "objectsStartWithBrace jsonParse"
  shows "\<exists>token. map_of (snd (snd (generateQRCodes e [int sid] d repo))) (pngPath e sid)
                   = Some (toBuffer token)
           \<and> (\<exists>q\<in>set (qr_code (fst (snd (generateQRCodes e [int sid] d repo)))).
                  qr_student_id q = sid \<and> qr_active q \<and> qr_token q = token)
           \<and> toBuffer token = token
           \<and> isUUID token
           \<and> toBuffer token \<noteq> scriptPayload token
           \<and> parseToken jsonParse (toBuffer token) = Some token
           \<and> (jsonParse (scriptPayload token)
                = Some (JObj [(''v'', JNum ''1''), (''token'', JStr token)])
              \<longrightarrow> parseToken jsonParse (scriptPayload token) = Some token)"
proof -
  obtain token d' k' where ea: "ensureActiveToken e 0 sid d = (token, d', k')"
    by (cases "ensureActiveToken e 0 sid d") auto
  have ids: "map nat (filter (\<lambda>n. n > 0) [int sid]) = [sid]" using assms(1) by simp
  have gen: "generateQRCodes e [int sid] d repo
        = (GenOk [\<lparr>gi_studentId = sid, gi_ok = True, gi_error = None\<rparr>], d',
           AList.update (pngPath e sid) (toBuffer token) repo)"
    unfolding generateQRCodes_def ids using assms(2) ea
    by (simp add: generateOne_def Let_def)
  from ensureActiveToken_cases [OF ea]
  have row: "\<exists>q\<in>set (qr_code d'). qr_student_id q = sid \<and> qr_active q \<and> qr_token q = token"
    and src: "(\<exists>q\<in>set (qr_code d). qr_token q = token) \<or> token = randomUUID e 0"
    by auto
  from src assms(3,4) have u: "isUUID token" by (auto simp: list_all_iff)
  have ne: "token \<noteq> []" using isUUID_ends(1) [OF u] .
  have stored: "map_of (snd (snd (generateQRCodes e [int sid] d repo))) (pngPath e sid)
              = Some (toBuffer token)"
    by (simp add: gen update_conv')
  have js: "jsonParse (scriptPayload token) = Some (JObj [(''v'', JNum ''1''), (''token'', JStr token)])
            \<longrightarrow> parseToken jsonParse (scriptPayload token) = Some token"
    using ne by (auto intro: parseToken_json)
  from stored row u uuid_not_payload [OF u] parseToken_uuid [OF assms(5) u] js
  show ?thesis by (intro exI [of _ token]) (simp add: gen toBuffer_def)
qed

lemma ex_uuid: "isUUID exToken" "isUUID exToken2"
  by (simp_all add: isUUID_def exToken_def exToken2_def isHexLower_def upt_rec [of _ "numeral n" for n])

lemma ex_generate:
  "generateQRCodes exEnv [1] exDb []
   = (GenOk [\<lparr>gi_studentId = 1, gi_ok = True, gi_error = None\<rparr>], exDb, [(''qr/qr_1.png'', exToken)])"
  by (simp add: generateQRCodes_def generateOne_def ensureActiveToken_def exDb_def pngPath_def
      showNat_one orElse_def exEnv_fields toBuffer_def exToken_def Let_def)

lemma ex_pngPath: "pngPath exEnv 1 = ''qr/qr_1.png''" "pngPath exEnv (Suc 0) = ''qr/qr_1.png''"
  by (simp_all add: pngPath_def showNat_one orElse_def exEnv_fields)

lemma ex_parser: "objectsStartWithBrace exJsonParse"
  by (auto simp: objectsStartWithBrace_def exJsonParse_def scriptPayload_def quoteJSONString_def
      isJsonWhiteSpace_def split: if_splits)

lemma ex_not_json: "exJsonParse exToken = None"
  using uuid_not_payload [OF ex_uuid(1), of exToken] by (simp add: exJsonParse_def)

text \<open>
  Claim C7. The claim says that the QR code of a student encodes the token embedded in a
  JSON payload. On a request for student 1, whose active token is the example token,
  \<^verbatim>\<open>generateQRCodes\<close> stores an image that encodes the 36 characters of the token
  themselves: a text that does not start with a brace, is not the payload that
  \<^verbatim>\<open>scripts/generate-qr.js\<close> renders for the same token, and that \<^verbatim>\<open>JSON.parse\<close>
  refuses. \<^verbatim>\<open>parseToken\<close> recovers the token from both texts, from the stored one
  through its fallback to the trimmed text.
\<close>

theorem generateQRCodes_payload:
  "generateQRCodes exEnv [1] exDb []
     = (GenOk [\<lparr>gi_studentId = 1, gi_ok = True, gi_error = None\<rparr>], exDb,
        [(''qr/qr_1.png'', toBuffer exToken)])
   \<and> pngPath exEnv 1 = ''qr/qr_1.png''
   \<and> toBuffer exToken = ''123e4567-e89b-12d3-a456-426614174000''
   \<and> toBuffer exToken \<noteq> toBuffer (scriptPayload exToken)
   \<and> hd (toBuffer exToken) \<noteq> CHR ''{''
   \<and> hd (scriptPayload exToken) = CHR ''{''
   \<and> exJsonParse (toBuffer exToken) = None
   \<and> exJsonParse (scriptPayload exToken)
       = Some (JObj [(''v'', JNum ''1''), (''token'', JStr exToken)])
   \<and> parseToken exJsonParse (toBuffer exToken) = Some exToken
   \<and> parseToken exJsonParse (scriptPayload exToken) = Some exToken"
proof -
  have ne: "exToken \<noteq> []" by (simp add: exToken_def)
  have jp: "exJsonParse (scriptPayload exToken)
            = Some (JObj [(''v'', JNum ''1''), (''token'', JStr exToken)])"
    by (simp add: exJsonParse_def)
  have p1: "parseToken exJsonParse exToken = Some exToken"
    by (rule parseToken_uuid [OF ex_parser ex_uuid(1)])
  have p2: "parseToken exJsonParse (scriptPayload exToken) = Some exToken"
    using jp ne by (auto intro: parseToken_json)
  have h: "hd (scriptPayload exToken) = CHR ''{''" by (simp add: scriptPayload_def)
  have t: "exToken = ''123e4567-e89b-12d3-a456-426614174000''" "hd exToken \<noteq> CHR ''{''"
    by (simp_all add: exToken_def)
  from ex_generate ex_pngPath(1) uuid_not_payload [OF ex_uuid(1), of exToken] ex_not_json
    jp p1 p2 h t
  show ?thesis by (simp add: toBuffer_def)
qed

end
